theory Spec2Isabelle
  imports Complex_Main "HOL-Library.Product_Lexorder" "HOL-Library.Multiset"
begin

section \<open>Content generation of the methylation browser (content.py)\<close>

text \<open>
  The module reads three kinds of on-disk data (tab-separated tables, per-gene
  measurement files, SQLite lookup tables) and assembles Plot.ly figures from them.
  The embedding below keeps the structure of the Python functions: every function
  takes the data directory as a value of type \<open>store\<close>, every exception the Python can
  raise on the modelled path is a value \<open>Inl e\<close> of the result, and the lists and
  dictionaries handed between the functions keep their order.

  Numbers read from the measurement files are IEEE doubles in the program. They are
  modelled as rationals, with \<open>None\<close> for NaN, and the arithmetic on them is exact:
  where the program rounds, its result and that of the model differ in the last
  digits of a double. Statements about computed values are therefore made up to a
  tolerance, and statements about which rows are kept compare values of the data
  with a threshold that is computed from them.

  The data frames are those of pandas as the readers deliver them, the graph objects
  are the dictionaries of Plot.ly 2, which keep the lists they are given, and the
  memoizing cache is left out: a call is modelled on one state of the data directory.
\<close>

subsection \<open>Exceptions\<close>

datatype py_error =
    FailToGraphException
  | KeyError
  | IndexError
  | TypeError
  | ValueError
  | ZeroDivisionError
  | OverflowError

subsection \<open>The data directory\<close>

text \<open>One row of \<open>tsne_points_ordered.csv\<close>, as \<open>csv.DictReader\<close> yields it: every
  cell is text. The columns \<open>biosample\<close> and \<open>layer\<close> are read with \<open>dict.get\<close> by the
  program and may be absent; columns the program never names are kept in \<open>extra\<close>.\<close>

record point =
  samp :: string
  tsne_x :: string
  tsne_y :: string
  cluster_label :: string
  cluster_name :: string
  cluster_ordered :: string
  cluster_ortholog :: string
  biosample :: "string option"
  layer :: "string option"
  extra :: "(string \<times> string) list"

text \<open>
  A cell of the column \<open>samp\<close> of a measurement file, as \<open>pandas.read_csv\<close> yields it.
  The reader infers the type of the column: when every cell reads as a number (or is
  empty) the column is numeric and its cells are numbers or NaN, otherwise the cells
  stay text, with NaN for the empty ones.
\<close>

datatype samp_cell = SampText string | SampNumber rat | SampNaN

text \<open>One row of a measurement file, as \<open>pandas.read_csv\<close> with the four column names
  yields it; an empty numeric cell is NaN.\<close>

record mch_row =
  gene :: string
  m_samp :: samp_cell
  m_original :: "rat option"
  m_normalized :: "rat option"

text \<open>One row of the table \<open>gene_names\<close> of a species.\<close>

record gene_info =
  geneID :: string
  geneName :: string

text \<open>One row of the table \<open>orthologs\<close>; \<open>None\<close> is SQL NULL.\<close>

record ortholog_row =
  mmu_gID :: "string option"
  hsa_gID :: "string option"

text \<open>
  The data directory \<open>DATA_DIR\<close>:
  \<^item> \<open>species_dirs\<close>: the names \<open>s\<close> for which \<open>DATA_DIR/s\<close> is a directory;
  \<^item> \<open>tsne_file\<close>: the rows of \<open>tsne_points_ordered.csv\<close> of a species, \<open>None\<close> when
    opening the file raises \<open>IOError\<close>;
  \<^item> \<open>mch_files\<close>: the files of the directory \<open>mch\<close> of a species, name and rows, in the
    order in which the directory is listed;
  \<^item> \<open>gene_names\<close>: the table \<open>gene_names\<close> of a species, in the order of the store;
  \<^item> \<open>orthologs\<close>: the table \<open>orthologs\<close>;
  \<^item> \<open>homologous_cluster\<close>: the rows (mouse cluster, human cluster) of
    \<open>mm_hs_homologous_cluster.txt\<close>, \<open>None\<close> when the file is absent;
  \<^item> \<open>sort_ties\<close>: \<open>sort_values\<close> sorts with numpy's quicksort, which is not stable, so
    rows with the same key come out in an order the program does not decide. The
    numbers of this list choose that order (see \<open>pick_order\<close>); the empty list leaves such
    rows in the order they had.
\<close>

record store =
  species_dirs :: "string list"
  tsne_file :: "string \<Rightarrow> point list option"
  mch_files :: "string \<Rightarrow> (string \<times> mch_row list) list"
  gene_names :: "string \<Rightarrow> gene_info list"
  orthologs :: "ortholog_row list"
  homologous_cluster :: "(int \<times> int) list option"
  sort_ties :: "nat list"

subsection \<open>Text primitives\<close>

text \<open>The blanks that Python's \<open>int\<close> and the number parser of pandas skip: space, tab,
  line feed, vertical tab, form feed and carriage return.\<close>

definition is_space :: "char \<Rightarrow> bool" where
  "is_space c \<longleftrightarrow> (let n = (of_char c :: nat) in (9 \<le> n \<and> n \<le> 13) \<or> n = 32)"

definition is_digit :: "char \<Rightarrow> bool" where
  "is_digit c \<longleftrightarrow> (48::nat) \<le> of_char c \<and> (of_char c :: nat) \<le> 57"

definition digits_value :: "string \<Rightarrow> nat" where
  "digits_value ds = foldl (\<lambda>a c. 10 * a + (of_char c - 48)) 0 ds"

definition startswith :: "string \<Rightarrow> string \<Rightarrow> bool" where
  "startswith s p \<longleftrightarrow> take (length p) s = p"

text \<open>
  \<open>fnmatch\<close>, the matching of a file name against a shell pattern: \<open>*\<close> matches any run
  of characters, \<open>?\<close> any one character, \<open>[seq]\<close> one character of \<open>seq\<close> and \<open>[!seq]\<close>
  one character not in it; in \<open>seq\<close> a \<open>]\<close> that comes first stands for itself and
  \<open>x-y\<close> is a range. A \<open>[\<close> without a closing \<open>]\<close> stands for itself.
\<close>

definition class_split :: "string \<Rightarrow> (string \<times> string) option" where
  "class_split ps =
     (let neg = (case ps of [] \<Rightarrow> False | c # _ \<Rightarrow> c = CHR ''!'');
          ps1 = (if neg then tl ps else ps);
          lit = (case ps1 of [] \<Rightarrow> False | c # _ \<Rightarrow> c = CHR '']'');
          ps2 = (if lit then tl ps1 else ps1)
      in if CHR '']'' \<in> set ps2
         then Some ((if neg then ''!'' else []) @ (if lit then '']'' else [])
                      @ takeWhile (\<lambda>c. c \<noteq> CHR '']'') ps2,
                    tl (dropWhile (\<lambda>c. c \<noteq> CHR '']'') ps2))
         else None)"

fun in_class :: "string \<Rightarrow> char \<Rightarrow> bool" where
  "in_class (x # y # z # rest) c =
     (if y = CHR ''-''
      then ((of_char x :: nat) \<le> of_char c \<and> (of_char c :: nat) \<le> of_char z) \<or> in_class rest c
      else c = x \<or> in_class (y # z # rest) c)"
| "in_class [x, y] c = (c = x \<or> c = y)"
| "in_class [x] c = (c = x)"
| "in_class [] c = False"

definition class_match :: "string \<Rightarrow> char \<Rightarrow> bool" where
  "class_match stuff c =
     (case stuff of
        [] \<Rightarrow> False
      | x # xs \<Rightarrow> if x = CHR ''!'' then \<not> in_class xs c else in_class stuff c)"

lemma class_split_shorter:
  assumes "class_split ps = Some (stuff, rest)"
  shows "length rest < Suc (length ps)"
proof -
  have d: "length (tl (dropWhile P xs)) \<le> length xs" for P and xs :: string
    by (metis length_dropWhile_le length_tl diff_le_self le_trans)
  have t: "length (tl xs) \<le> length xs" for xs :: string by simp
  from assms show ?thesis
    by (auto simp: class_split_def Let_def split: if_splits
             intro!: le_imp_less_Suc order_trans [OF d] order_trans [OF d t]
                     order_trans [OF d order_trans [OF t t]])
qed

function fnmatch :: "string \<Rightarrow> string \<Rightarrow> bool" where
  "fnmatch [] s = (s = [])"
| "fnmatch (p # ps) s =
     (if p = CHR ''*'' then
        fnmatch ps s \<or> (case s of [] \<Rightarrow> False | _ # cs \<Rightarrow> fnmatch (p # ps) cs)
      else if p = CHR ''?'' then
        (case s of [] \<Rightarrow> False | _ # cs \<Rightarrow> fnmatch ps cs)
      else if p = CHR ''['' then
        (case class_split ps of
           None \<Rightarrow> (case s of [] \<Rightarrow> False | c # cs \<Rightarrow> c = p \<and> fnmatch ps cs)
         | Some (stuff, rest) \<Rightarrow>
             (case s of [] \<Rightarrow> False | c # cs \<Rightarrow> class_match stuff c \<and> fnmatch rest cs))
      else (case s of [] \<Rightarrow> False | c # cs \<Rightarrow> c = p \<and> fnmatch ps cs))"
  by pat_completeness auto
termination
  by (relation "measure (\<lambda>(p, s). length p + length s)")
     (auto dest: class_split_shorter)

subsection \<open>Utilities\<close>

definition species_exists :: "store \<Rightarrow> string \<Rightarrow> bool" where
  "species_exists st species \<longleftrightarrow> species \<in> set (species_dirs st)"

text \<open>
  \<open>glob.glob('DATA_DIR/species/mch/gene*')\<close>: the files of the directory whose name
  matches the pattern \<open>gene*\<close>, in which the wildcards of the gene identifier count. A
  name that starts with a dot is listed only when the pattern starts with a dot. The
  identifier is taken to hold no \<open>/\<close>, so that the pattern stays within the directory.
\<close>

definition glob_mch :: "store \<Rightarrow> string \<Rightarrow> string \<Rightarrow> (string \<times> mch_row list) list" where
  "glob_mch st species g =
     filter (\<lambda>f. (startswith g ''.'' \<or> \<not> startswith (fst f) ''.'')
                  \<and> fnmatch (g @ ''*'') (fst f))
            (mch_files st species)"

definition gene_exists :: "store \<Rightarrow> string \<Rightarrow> string \<Rightarrow> bool" where
  "gene_exists st species g =
     (case glob_mch st species g of
        [] \<Rightarrow> False
      | f # _ \<Rightarrow> True)"

subsection \<open>Ortholog lookup\<close>

definition null_pair :: ortholog_row where
  "null_pair = \<lparr>mmu_gID = None, hsa_gID = None\<rparr>"

text \<open>\<open>SELECT * FROM orthologs WHERE key=?\<close> followed by \<open>fetchone\<close>: the first row whose
  column \<open>key\<close> equals the value.\<close>

definition select_orthologs ::
  "ortholog_row list \<Rightarrow> (ortholog_row \<Rightarrow> string option) \<Rightarrow> string \<Rightarrow> ortholog_row option" where
  "select_orthologs tbl query_key query_value =
     (case filter (\<lambda>r. query_key r = Some query_value) tbl of
        [] \<Rightarrow> None
      | r # _ \<Rightarrow> Some r)"

definition find_orthologs :: "store \<Rightarrow> string \<Rightarrow> string \<Rightarrow> ortholog_row" where
  "find_orthologs st mmu_gid hsa_gid =
     (if mmu_gid = [] \<and> hsa_gid = [] then null_pair
      else
        let query_key = (if mmu_gid \<noteq> [] then mmu_gID else hsa_gID);
            query_value = (if mmu_gid \<noteq> [] then mmu_gid else hsa_gid)
        in case select_orthologs (orthologs st) query_key query_value of
             None \<Rightarrow> null_pair
           | Some r \<Rightarrow> r)"

subsection \<open>Reading the stores\<close>

definition get_cluster_points :: "store \<Rightarrow> string \<Rightarrow> point list option" where
  "get_cluster_points st species =
     (if \<not> species_exists st species then None else tsne_file st species)"

text \<open>SQLite's \<open>LIKE\<close>: \<open>%\<close> matches any run of characters, \<open>_\<close> any one character, and
  ASCII letters are compared without regard to case.\<close>

definition ascii_lower :: "char \<Rightarrow> char" where
  "ascii_lower c =
     (let n = (of_char c :: nat)
      in if 65 \<le> n \<and> n \<le> 90 then char_of (n + 32) else c)"

fun sql_like :: "string \<Rightarrow> string \<Rightarrow> bool" where
  "sql_like [] t = (t = [])"
| "sql_like (p # ps) [] = (p = CHR ''%'' \<and> sql_like ps [])"
| "sql_like (p # ps) (c # cs) =
     (if p = CHR ''%'' then sql_like ps (c # cs) \<or> sql_like (p # ps) cs
      else (p = CHR ''_'' \<or> ascii_lower p = ascii_lower c) \<and> sql_like ps cs)"

text \<open>\<open>cursor.fetchone()\<close> after \<open>SELECT * FROM gene_names WHERE geneID LIKE query%\<close>:
  the first matching row, or Python's \<open>None\<close>.\<close>

definition fetchone_gene_id :: "gene_info list \<Rightarrow> string \<Rightarrow> gene_info option" where
  "fetchone_gene_id tbl query =
     (case filter (\<lambda>r. sql_like (query @ ''%'') (geneID r)) tbl of
        [] \<Rightarrow> None
      | r # _ \<Rightarrow> Some r)"

text \<open>What \<open>gene_id_to_name\<close> returns: the empty list for an absent species, or the
  dictionary of the row found.\<close>

datatype gene_lookup = EmptyList | GeneDict gene_info

text \<open>\<open>dict(query_results)\<close> raises \<open>TypeError\<close> when \<open>fetchone\<close> gave \<open>None\<close>.\<close>

definition gene_id_to_name :: "store \<Rightarrow> string \<Rightarrow> string \<Rightarrow> py_error + gene_lookup" where
  "gene_id_to_name st species query =
     (if \<not> species_exists st species then Inr EmptyList
      else case fetchone_gene_id (gene_names st species) query of
             None \<Rightarrow> Inl TypeError
           | Some r \<Rightarrow> Inr (GeneDict r))"

text \<open>\<open>geneName['geneName']\<close> in the plot builders: indexing the empty list with a
  string raises \<open>TypeError\<close>.\<close>

definition gene_display_name :: "store \<Rightarrow> string \<Rightarrow> string \<Rightarrow> py_error + string" where
  "gene_display_name st species g =
     (case gene_id_to_name st species g of
        Inl e \<Rightarrow> Inl e
      | Inr EmptyList \<Rightarrow> Inl TypeError
      | Inr (GeneDict r) \<Rightarrow> Inr (geneName r))"

subsection \<open>The join of embedding and measurement\<close>

text \<open>A row of the merged data frame. The column \<open>cluster_ordered\<close> is text until
  \<open>pandas.to_numeric\<close> has run, and a number or NaN afterwards, hence the parameter.\<close>

record 'c joined =
  j_samp :: string
  j_tsne_x :: string
  j_tsne_y :: string
  j_cluster_label :: string
  j_cluster_name :: string
  j_cluster_ordered :: 'c
  j_cluster_ortholog :: string
  original :: "rat option"
  normalized :: "rat option"

definition join_row :: "point \<Rightarrow> rat option \<Rightarrow> rat option \<Rightarrow> string joined" where
  "join_row p orig nrm =
     \<lparr>j_samp = samp p, j_tsne_x = tsne_x p, j_tsne_y = tsne_y p,
      j_cluster_label = cluster_label p, j_cluster_name = cluster_name p,
      j_cluster_ordered = cluster_ordered p, j_cluster_ortholog = cluster_ortholog p,
      original = orig, normalized = nrm\<rparr>"

text \<open>
  \<open>pandas.merge(..., on='samp', how='left')\<close>: the rows of the left frame in their
  order, each once for every row of the right frame with the same key, in the right
  frame's order, and once with NaN when no row of the right frame has the key. The
  keys of the left frame are text, so only a text cell of the right frame can be equal
  to one of them.
\<close>

definition merge_left_row :: "mch_row list \<Rightarrow> point \<Rightarrow> string joined list" where
  "merge_left_row mch p =
     (case filter (\<lambda>m. m_samp m = SampText (samp p)) mch of
        [] \<Rightarrow> [join_row p None None]
      | ms \<Rightarrow> map (\<lambda>m. join_row p (m_original m) (m_normalized m)) ms)"

definition merge_left :: "point list \<Rightarrow> mch_row list \<Rightarrow> string joined list" where
  "merge_left cluster mch = concat (map (merge_left_row mch) cluster)"

text \<open>\<open>Series.quantile(q)\<close>: NaN is skipped, the values are sorted, and the quantile is
  read at position \<open>(n - 1) * q\<close> with linear interpolation between the two
  neighbours. The result is NaN when no value is left, and \<open>q\<close> outside \<open>[0, 1]\<close>
  raises \<open>ValueError\<close>. The interpolation is exact here; the program rounds each of
  its steps to a double.\<close>

definition dropna :: "rat option list \<Rightarrow> rat list" where
  "dropna vs = map the (filter (\<lambda>v. v \<noteq> None) vs)"

definition interpolate :: "rat list \<Rightarrow> rat \<Rightarrow> rat" where
  "interpolate s h =
     (let i = nat \<lfloor>h\<rfloor>; g = h - of_int \<lfloor>h\<rfloor>
      in if g = 0 then s ! i else s ! i + (s ! (i + 1) - s ! i) * g)"

definition quantile_sorted :: "rat list \<Rightarrow> rat \<Rightarrow> rat option" where
  "quantile_sorted xs q =
     (if xs = [] then None
      else Some (interpolate (sort xs) (of_nat (length xs - 1) * q)))"

definition quantile :: "rat option list \<Rightarrow> rat \<Rightarrow> py_error + rat option" where
  "quantile vs q =
     (if q < 0 \<or> 1 < q then Inl ValueError else Inr (quantile_sorted (dropna vs) q))"

text \<open>The comparison \<open>normalized < three_std_dev\<close>: false whenever either side is NaN.\<close>

definition nan_less :: "rat option \<Rightarrow> rat option \<Rightarrow> bool" where
  "nan_less a b =
     (case a of None \<Rightarrow> False
      | Some x \<Rightarrow> (case b of None \<Rightarrow> False | Some y \<Rightarrow> x < y))"

text \<open>Lines 293 to 297: the rows below the 99th percentile of the normalized values.\<close>

definition three_std_dev :: "('c, 'z) joined_scheme list \<Rightarrow> rat option" where
  "three_std_dev rows = quantile_sorted (dropna (map normalized rows)) (99 / 100)"

definition remove_outliers :: "('c, 'z) joined_scheme list \<Rightarrow> ('c, 'z) joined_scheme list" where
  "remove_outliers rows =
     filter (\<lambda>r. nan_less (normalized r) (three_std_dev rows)) rows"

text \<open>
  Python's \<open>int\<close> on text: blanks around the number are dropped, then come an optional
  sign and decimal digits, in which single underscores may stand between digits;
  anything else raises \<open>ValueError\<close> (here \<open>None\<close>). The text is taken to be ASCII.
\<close>

definition strip_space :: "string \<Rightarrow> string" where
  "strip_space s = rev (dropWhile is_space (rev (dropWhile is_space s)))"

fun split_on :: "char \<Rightarrow> string \<Rightarrow> string list" where
  "split_on c [] = [[]]"
| "split_on c (x # xs) =
     (if x = c then [] # split_on c xs
      else (case split_on c xs of [] \<Rightarrow> [[x]] | g # gs \<Rightarrow> (x # g) # gs))"

definition parse_digits :: "string \<Rightarrow> nat option" where
  "parse_digits ds =
     (if list_all (\<lambda>g. g \<noteq> [] \<and> list_all is_digit g) (split_on CHR ''_'' ds)
      then Some (digits_value (filter (\<lambda>c. c \<noteq> CHR ''_'') ds))
      else None)"

definition py_int :: "string \<Rightarrow> int option" where
  "py_int s =
     (case strip_space s of
        [] \<Rightarrow> None
      | c # cs \<Rightarrow>
          if c = CHR ''-'' then map_option (\<lambda>n. - int n) (parse_digits cs)
          else if c = CHR ''+'' then map_option int (parse_digits cs)
          else map_option int (parse_digits (c # cs)))"

text \<open>
  A float of the column \<open>cluster_ordered\<close> after \<open>pandas.to_numeric\<close>: a number or an
  infinity; NaN is \<open>None\<close>.
\<close>

datatype number = Finite rat | PosInf | NegInf

text \<open>
  The number parser behind \<open>pandas.to_numeric\<close>: blanks, an optional sign, digits with
  an optional decimal point (at least one digit in all), an optional exponent \<open>e\<close> or
  \<open>E\<close> with sign and digits, and blanks to the end.
\<close>

definition split_sign :: "string \<Rightarrow> bool \<times> string" where
  "split_sign s =
     (case s of
        [] \<Rightarrow> (False, [])
      | c # cs \<Rightarrow> if c = CHR ''-'' then (True, cs)
                else if c = CHR ''+'' then (False, cs) else (False, s))"

definition split_fraction :: "string \<Rightarrow> string \<times> string" where
  "split_fraction s =
     (case s of
        [] \<Rightarrow> ([], [])
      | c # cs \<Rightarrow> if c = CHR ''.'' then (takeWhile is_digit cs, dropWhile is_digit cs)
                else ([], s))"

definition split_exponent :: "string \<Rightarrow> int \<times> string" where
  "split_exponent s =
     (case s of
        [] \<Rightarrow> (0, [])
      | c # cs \<Rightarrow>
          if c = CHR ''e'' \<or> c = CHR ''E'' then
            (let (neg, r) = split_sign cs; ds = takeWhile is_digit r
             in if ds = [] then (0, s)
                else (if neg then - int (digits_value ds) else int (digits_value ds),
                      dropWhile is_digit r))
          else (0, s))"

definition scale10 :: "rat \<Rightarrow> int \<Rightarrow> rat" where
  "scale10 x e = (if 0 \<le> e then x * 10 ^ nat e else x / 10 ^ nat (- e))"

definition xstrtod :: "string \<Rightarrow> rat option" where
  "xstrtod s =
     (let (neg, s2) = split_sign (dropWhile is_space s);
          ip = takeWhile is_digit s2;
          (fp, s4) = split_fraction (dropWhile is_digit s2)
      in if ip = [] \<and> fp = [] then None
         else
           (let (e, s5) = split_exponent s4;
                m = scale10 (of_nat (digits_value (ip @ fp))) (e - int (length fp))
            in if dropWhile is_space s5 = [] then Some (if neg then - m else m) else None))"

text \<open>\<open>pandas.to_numeric(errors='coerce')\<close> on a text cell: the number that the parser
  reads, an infinity for the words \<open>inf\<close> and \<open>infinity\<close> with an optional sign in any
  case of letters, and NaN for all other text.\<close>

definition pd_to_numeric :: "string \<Rightarrow> number option" where
  "pd_to_numeric s =
     (case xstrtod s of
        Some x \<Rightarrow> Some (Finite x)
      | None \<Rightarrow>
          (let w = map ascii_lower s
           in if w \<in> set [''inf'', ''+inf'', ''infinity'', ''+infinity''] then Some PosInf
              else if w \<in> set [''-inf'', ''-infinity''] then Some NegInf
              else None))"

definition to_numeric :: "string joined \<Rightarrow> number option joined" where
  "to_numeric r =
     \<lparr>j_samp = j_samp r, j_tsne_x = j_tsne_x r, j_tsne_y = j_tsne_y r,
      j_cluster_label = j_cluster_label r, j_cluster_name = j_cluster_name r,
      j_cluster_ordered = pd_to_numeric (j_cluster_ordered r),
      j_cluster_ortholog = j_cluster_ortholog r,
      original = original r, normalized = normalized r\<rparr>"

text \<open>\<open>int(x)\<close> on such a float: towards zero; \<open>ValueError\<close> for NaN and \<open>OverflowError\<close>
  for an infinity.\<close>

definition int_of_number :: "number option \<Rightarrow> py_error + int" where
  "int_of_number x =
     (case x of
        None \<Rightarrow> Inl ValueError
      | Some (Finite r) \<Rightarrow> Inr (if 0 \<le> r then \<lfloor>r\<rfloor> else \<lceil>r\<rceil>)
      | Some PosInf \<Rightarrow> Inl OverflowError
      | Some NegInf \<Rightarrow> Inl OverflowError)"

text \<open>The sort key of \<open>sort_values(by='cluster_ordered', ascending=True)\<close>: numbers in
  ascending order, NaN last.\<close>

definition order_key :: "number option joined \<Rightarrow> nat \<times> rat" where
  "order_key r =
     (case j_cluster_ordered r of
        Some NegInf \<Rightarrow> (0, 0)
      | Some (Finite x) \<Rightarrow> (1, x)
      | Some PosInf \<Rightarrow> (2, 0)
      | None \<Rightarrow> (3, 0))"

text \<open>
  The order in which the sort leaves rows of equal key: the rows are first put in the
  order that the numbers of \<open>tape\<close> choose, each number picking one of the rows not yet
  taken (the first one when the tape has run out), and then sorted by an insertion
  sort, which keeps that order among equal keys. Every sorted order of the rows
  arises from some tape.
\<close>

fun pick_order :: "nat list \<Rightarrow> 'a list \<Rightarrow> nat \<Rightarrow> 'a list" where
  "pick_order tape xs 0 = []"
| "pick_order tape xs (Suc k) =
     (let j = (case tape of [] \<Rightarrow> 0 | r # _ \<Rightarrow> r mod length xs)
      in xs ! j # pick_order (tl tape) (take j xs @ drop (Suc j) xs) k)"

definition sort_values :: "nat list \<Rightarrow> number option joined list \<Rightarrow> number option joined list" where
  "sort_values tape rows = sort_key order_key (pick_order tape rows (length rows))"

text \<open>Whether pandas read the column \<open>samp\<close> of a measurement file as text: a frame
  without rows has text columns, and otherwise some cell must be text.\<close>

definition samp_is_text :: "mch_row list \<Rightarrow> bool" where
  "samp_is_text mch \<longleftrightarrow>
     mch = [] \<or> list_ex (\<lambda>m. case m_samp m of SampText _ \<Rightarrow> True | _ \<Rightarrow> False) mch"

text \<open>
  \<open>get_gene_mch\<close>. The measurement file is the first that \<open>glob\<close> lists. Selecting the
  columns of the embedding frame raises \<open>KeyError\<close> when \<open>get_cluster_points\<close> gave
  \<open>None\<close> or no row, since the frame has no column then, and the merge raises
  \<open>ValueError\<close> when the column \<open>samp\<close> of the measurement file is not text; neither is
  caught. A measurement file without rows is read as a frame without rows.
\<close>

definition join_frames ::
  "nat list \<Rightarrow> point list \<Rightarrow> mch_row list \<Rightarrow> bool \<Rightarrow> number option joined list" where
  "join_frames tape cluster mch outliers =
     (let dataframe_merged = merge_left cluster mch;
          dataframe_merged =
            (if \<not> outliers then remove_outliers dataframe_merged else dataframe_merged)
      in sort_values tape (map to_numeric dataframe_merged))"

definition get_gene_mch ::
  "store \<Rightarrow> string \<Rightarrow> string \<Rightarrow> bool \<Rightarrow> py_error + number option joined list" where
  "get_gene_mch st species g outliers =
     (if \<not> species_exists st species \<or> \<not> gene_exists st species g then Inr []
      else case glob_mch st species g of
        [] \<Rightarrow> Inr []
      | f # _ \<Rightarrow>
          (case get_cluster_points st species of
             None \<Rightarrow> Inl KeyError
           | Some cluster \<Rightarrow>
               (if cluster = [] then Inl KeyError
                else if \<not> samp_is_text (snd f) then Inl ValueError
                else Inr (join_frames (sort_ties st) cluster (snd f) outliers))))"

subsection \<open>Python and numpy primitives\<close>

text \<open>Subscripting a list with an integer: an index below zero is taken from the
  back, and an index that falls outside the list raises \<open>IndexError\<close>.\<close>

definition py_index :: "'a list \<Rightarrow> int \<Rightarrow> py_error + 'a" where
  "py_index xs i =
     (if 0 \<le> i \<and> i < int (length xs) then Inr (xs ! nat i)
      else if i < 0 \<and> - int (length xs) \<le> i then Inr (xs ! nat (int (length xs) + i))
      else Inl IndexError)"

text \<open>\<open>round(x)\<close>: to the nearest integer, a tie to the even neighbour.\<close>

definition py_round :: "rat \<Rightarrow> int" where
  "py_round x =
     (let f = \<lfloor>x\<rfloor>; d = x - of_int f
      in if d < 1 / 2 then f
         else if 1 / 2 < d then f + 1
         else if even f then f else f + 1)"

text \<open>\<open>round(x, 3)\<close>.\<close>

definition py_round3 :: "rat \<Rightarrow> rat" where
  "py_round3 x = of_int (py_round (x * 1000)) / 1000"

text \<open>\<open>str\<close> of an integer.\<close>

definition digit_char :: "nat \<Rightarrow> char" where
  "digit_char d = char_of (48 + d)"

fun str_nat :: "nat \<Rightarrow> string" where
  "str_nat n = (if n < 10 then [digit_char n] else str_nat (n div 10) @ [digit_char (n mod 10)])"

declare str_nat.simps [simp del]

definition str_int :: "int \<Rightarrow> string" where
  "str_int i = (if i < 0 then CHR ''-'' # str_nat (nat (- i)) else str_nat (nat i))"

text \<open>\<open>numpy.linspace(0, 360, num)\<close>: \<open>num\<close> points from 0 to 360, both ends included;
  a negative \<open>num\<close> raises \<open>ValueError\<close>.\<close>

definition linspace_0_360 :: "int \<Rightarrow> py_error + rat list" where
  "linspace_0_360 num =
     (if num < 0 then Inl ValueError
      else if num = 1 then Inr [0]
      else Inr (map (\<lambda>i. 360 * of_nat i / of_int (num - 1)) [0..<nat num]))"

text \<open>
  \<open>random.sample(c, k)\<close> with \<open>k = len(c)\<close> draws from a pool: step \<open>i\<close> takes
  \<open>pool[j]\<close> for a random \<open>j\<close> below the number of items left and moves the last item
  left into the vacancy. The random numbers are the list \<open>tape\<close>, one per step, each
  reduced below its bound as \<open>randbelow\<close> guarantees (0 when the list has run out).
\<close>

fun sample_steps :: "nat list \<Rightarrow> 'a list \<Rightarrow> nat \<Rightarrow> 'a list" where
  "sample_steps tape pool 0 = []"
| "sample_steps tape pool (Suc k) =
     (let j = (case tape of [] \<Rightarrow> 0 | r # _ \<Rightarrow> r mod length pool)
      in pool ! j # sample_steps (tl tape) (butlast (pool[j := last pool])) k)"

definition py_sample :: "nat list \<Rightarrow> 'a list \<Rightarrow> 'a list" where
  "py_sample tape c = sample_steps tape c (length c)"

text \<open>\<open>numpy.arange(start, stop, step)\<close> on floats: the length is the ceiling of
  \<open>(stop - start) / step\<close>; the division raises \<open>ZeroDivisionError\<close> for a zero step,
  and a NaN length raises \<open>ValueError\<close>.\<close>

definition arange :: "rat option \<Rightarrow> rat option \<Rightarrow> rat option \<Rightarrow> py_error + rat list" where
  "arange start stop step =
     (case (start, stop, step) of
        (Some a, Some b, Some d) \<Rightarrow>
          if d = 0 then Inl ZeroDivisionError
          else Inr (map (\<lambda>k. a + of_nat k * d) [0..<nat \<lceil>(b - a) / d\<rceil>])
      | _ \<Rightarrow> Inl ValueError)"

text \<open>Arithmetic on floats that may be NaN.\<close>

definition nan_sub :: "rat option \<Rightarrow> rat option \<Rightarrow> rat option" where
  "nan_sub a b = (case (a, b) of (Some x, Some y) \<Rightarrow> Some (x - y) | _ \<Rightarrow> None)"

definition nan_div4 :: "rat option \<Rightarrow> rat option" where
  "nan_div4 a = map_option (\<lambda>x. x / 4) a"

text \<open>\<open>s.strip(chars)\<close> removes the characters of \<open>chars\<close> from both ends.\<close>

definition py_strip :: "string \<Rightarrow> string \<Rightarrow> string" where
  "py_strip chars s =
     rev (dropWhile (\<lambda>c. c \<in> set chars) (rev (dropWhile (\<lambda>c. c \<in> set chars) s)))"

definition ascii_upper :: "char \<Rightarrow> char" where
  "ascii_upper c =
     (let n = (of_char c :: nat)
      in if 97 \<le> n \<and> n \<le> 122 then char_of (n - 32) else c)"

definition capitalize :: "string \<Rightarrow> string" where
  "capitalize s = (case s of [] \<Rightarrow> [] | c # cs \<Rightarrow> ascii_upper c # map ascii_lower cs)"

subsection \<open>Colours and scales\<close>

definition build_hover_text :: "(string \<times> string) list \<Rightarrow> string" where
  "build_hover_text labels =
     py_strip ''<br>'' (concat (map (\<lambda>(k, v). k @ '': '' @ v @ ''<br>'') labels))"

definition hsl :: "rat \<Rightarrow> string" where
  "hsl h = ''hsl('' @ str_int (py_round h) @ '',50%,50%)''"

definition generate_cluster_colors :: "nat list \<Rightarrow> int \<Rightarrow> py_error + string list" where
  "generate_cluster_colors tape num =
     (case linspace_0_360 num of
        Inl e \<Rightarrow> Inl e
      | Inr hs \<Rightarrow> Inr (py_sample tape (map hsl hs)))"

text \<open>What \<open>set_color_by_percentile\<close> returns: the string \<open>'grey'\<close> or a float.\<close>

datatype color_value = Grey | Level "rat option"

definition set_color_by_percentile ::
  "rat option \<Rightarrow> rat option \<Rightarrow> rat option \<Rightarrow> color_value" where
  "set_color_by_percentile this start stop =
     (if this = None then Grey
      else if nan_less this start then Level start
      else if nan_less stop this then Level stop
      else Level this)"

subsection \<open>Gene scatter plot\<close>

text \<open>A tick label of the colour bar: the rounded value, with the prefix \<open><\<close> or \<open>>\<close>
  on the first and the last.\<close>

datatype tick_label = Tick rat | Below "rat option" | Above "rat option"

text \<open>The figure of \<open>get_mch_scatter\<close>: the single trace and the titles. The hover texts
  and the constant styling of trace and layout are left out.\<close>

record mch_scatter =
  ms_x :: "string list"
  ms_y :: "string list"
  ms_color :: "color_value list"
  ms_start :: "rat option"
  ms_end :: "rat option"
  ms_tickvals :: "rat option list"
  ms_ticktext :: "tick_label list"
  ms_colorbar_title :: string
  ms_title :: string

definition level_value :: "string \<Rightarrow> ('c, 'z) joined_scheme \<Rightarrow> rat option" where
  "level_value level p = (if level = ''normalized'' then normalized p else original p)"

text \<open>Lines 528 to 535: the tick values and labels of the colour bar.\<close>

definition colorbar ::
  "rat option \<Rightarrow> rat option \<Rightarrow> py_error + (rat option list \<times> tick_label list)" where
  "colorbar start stop =
     (case arange start stop (nan_div4 (nan_sub stop start)) of
        Inl e \<Rightarrow> Inl e
      | Inr [] \<Rightarrow> Inl IndexError
      | Inr (t # ts) \<Rightarrow>
          Inr (start # map Some ts @ [stop],
               Below (map_option py_round3 start) # map (\<lambda>x. Tick (py_round3 x)) ts
                 @ [Above (map_option py_round3 stop)]))"

definition get_mch_scatter ::
  "store \<Rightarrow> string \<Rightarrow> string \<Rightarrow> string \<Rightarrow> rat \<Rightarrow> rat \<Rightarrow> py_error + mch_scatter" where
  "get_mch_scatter st species g level ptile_start ptile_end =
     (case get_gene_mch st species g True of
        Inl e \<Rightarrow> Inl e
      | Inr points \<Rightarrow>
          if points = [] then Inl FailToGraphException
          else
            (let mch = map (level_value level) points
             in case quantile mch ptile_start of
                 Inl e \<Rightarrow> Inl e
               | Inr start \<Rightarrow>
                  (case quantile mch ptile_end of
                     Inl e \<Rightarrow> Inl e
                   | Inr stop \<Rightarrow>
                      (case colorbar start stop of
                         Inl e \<Rightarrow> Inl e
                       | Inr ticks \<Rightarrow>
                          (case gene_display_name st species g of
                             Inl e \<Rightarrow> Inl e
                           | Inr gname \<Rightarrow>
                               Inr \<lparr>ms_x = map j_tsne_x points,
                                    ms_y = map j_tsne_y points,
                                    ms_color =
                                      map (\<lambda>x. set_color_by_percentile x start stop) mch,
                                    ms_start = start,
                                    ms_end = stop,
                                    ms_tickvals = fst ticks,
                                    ms_ticktext = snd ticks,
                                    ms_colorbar_title = capitalize level @ '' mCH'',
                                    ms_title = ''Gene body mCH: '' @ gname\<rparr>)))))"

subsection \<open>Cluster scatter plot\<close>

datatype visibility = Visible | LegendOnly

text \<open>A \<open>Scattergl\<close> trace of the cluster plot: the three arrays, name, legend group,
  visibility and the marker (the line of the marker has the constant width 1).\<close>

record cluster_trace =
  ct_x :: "string list"
  ct_y :: "string list"
  ct_text :: "string list"
  ct_name :: string
  ct_legendgroup :: string
  ct_visible :: visibility
  ct_color :: string
  ct_size :: nat
  ct_symbol :: string
  ct_line_color :: string

definition symbols :: "string list" where
  "symbols = [''circle-open'', ''square-open'', ''cross'', ''triangle-up'',
              ''triangle-down'', ''octagon'', ''star'', ''diamond'']"

text \<open>\<open>point[key]\<close> on a row of the embedding table.\<close>

definition point_get :: "point \<Rightarrow> string \<Rightarrow> string option" where
  "point_get p k =
     (if k = ''samp'' then Some (samp p)
      else if k = ''tsne_x'' then Some (tsne_x p)
      else if k = ''tsne_y'' then Some (tsne_y p)
      else if k = ''cluster_label'' then Some (cluster_label p)
      else if k = ''cluster_name'' then Some (cluster_name p)
      else if k = ''cluster_ordered'' then Some (cluster_ordered p)
      else if k = ''cluster_ortholog'' then Some (cluster_ortholog p)
      else if k = ''biosample'' then biosample p
      else if k = ''layer'' then layer p
      else map_of (extra p) k)"

text \<open>\<open>int(max(points, key=...)['cluster_ordered']) + 1\<close> over the keys that \<open>int\<close>
  gives for the points in their order: the first key that does not convert raises its
  error, and \<open>max\<close> of no point raises \<open>ValueError\<close>.\<close>

fun first_error :: "(py_error + int) list \<Rightarrow> py_error option" where
  "first_error [] = None"
| "first_error (Inl e # ks) = Some e"
| "first_error (Inr n # ks) = first_error ks"

definition max_cluster_of :: "(py_error + int) list \<Rightarrow> py_error + int" where
  "max_cluster_of ks =
     (case first_error ks of
        Some e \<Rightarrow> Inl e
      | None \<Rightarrow>
          (case map (\<lambda>k. case k of Inr n \<Rightarrow> n | Inl _ \<Rightarrow> 0) ks of
             [] \<Rightarrow> Inl ValueError
           | n # ns \<Rightarrow> Inr (fold max ns n + 1)))"

definition int_of_text :: "string \<Rightarrow> py_error + int" where
  "int_of_text s = (case py_int s of None \<Rightarrow> Inl ValueError | Some n \<Rightarrow> Inr n)"

text \<open>\<open>if species == 'mmu': max_cluster = 16\<close>.\<close>

definition cap_max_cluster :: "string \<Rightarrow> int \<Rightarrow> int" where
  "cap_max_cluster species max_cluster = (if species = ''mmu'' then 16 else max_cluster)"

text \<open>The ordered dictionary of traces: keys in the order of their first insertion.\<close>

definition setdefault :: "(int \<times> 'a) list \<Rightarrow> int \<Rightarrow> 'a \<Rightarrow> (int \<times> 'a) list" where
  "setdefault traces k d = (if k \<in> fst ` set traces then traces else traces @ [(k, d)])"

definition update_trace :: "(int \<times> 'a) list \<Rightarrow> int \<Rightarrow> ('a \<Rightarrow> 'a) \<Rightarrow> (int \<times> 'a) list" where
  "update_trace traces k f = map (\<lambda>(k', t). if k' = k then (k', f t) else (k', t)) traces"

text \<open>The trace that one point offers to \<open>setdefault\<close>, with the key of its group. The
  arguments of the constructor are evaluated for every point, so each of them can
  raise whether or not the key is new.\<close>

definition cluster_default_trace ::
  "string \<Rightarrow> string list \<Rightarrow> int \<Rightarrow> point \<Rightarrow> py_error + (int \<times> cluster_trace)" where
  "cluster_default_trace grouping colors max_cluster p =
     (case py_int (cluster_ordered p) of
        None \<Rightarrow> Inl ValueError
      | Some cluster_num \<Rightarrow>
       (case (case biosample p of None \<Rightarrow> Some 1 | Some b \<Rightarrow> py_int b) of
          None \<Rightarrow> Inl ValueError
        | Some b1 \<Rightarrow>
         (case biosample p of
            None \<Rightarrow> Inl KeyError
          | Some btext \<Rightarrow>
           (case point_get p grouping of
              None \<Rightarrow> Inl KeyError
            | Some grp \<Rightarrow>
             (case py_index colors (cluster_num - 1) of
                Inl e \<Rightarrow> Inl e
              | Inr col \<Rightarrow>
               (case py_index symbols (b1 - 1) of
                  Inl e \<Rightarrow> Inl e
                | Inr smb \<Rightarrow>
                    Inr (cluster_num + max_cluster * (b1 - 1),
                         \<lparr>ct_x = [], ct_y = [], ct_text = [],
                          ct_name = cluster_name p @ '' Sample'' @ btext,
                          ct_legendgroup = grp,
                          ct_visible = Visible,
                          ct_color = col,
                          ct_size = 7,
                          ct_symbol = smb,
                          ct_line_color = col\<rparr>)))))))"

definition cluster_hover :: "point \<Rightarrow> string" where
  "cluster_hover p =
     build_hover_text
       [(''Cell'', samp p),
        (''Layer'', case layer p of None \<Rightarrow> ''N/A'' | Some l \<Rightarrow> l),
        (''Biosample'', case biosample p of None \<Rightarrow> ''N/A'' | Some b \<Rightarrow> b),
        (''Cluster'', case py_int (cluster_ordered p) of None \<Rightarrow> [] | Some n \<Rightarrow> str_int n)]"

definition append_point :: "point \<Rightarrow> cluster_trace \<Rightarrow> cluster_trace" where
  "append_point p t =
     t\<lparr>ct_x := ct_x t @ [tsne_x p], ct_y := ct_y t @ [tsne_y p],
       ct_text := ct_text t @ [cluster_hover p]\<rparr>"

text \<open>The loop over the points (lines 359 to 389).\<close>

fun cluster_loop ::
  "string \<Rightarrow> string list \<Rightarrow> int \<Rightarrow> point list \<Rightarrow> (int \<times> cluster_trace) list
     \<Rightarrow> py_error + (int \<times> cluster_trace) list" where
  "cluster_loop grouping colors max_cluster [] traces = Inr traces"
| "cluster_loop grouping colors max_cluster (p # ps) traces =
     (case cluster_default_trace grouping colors max_cluster p of
        Inl e \<Rightarrow> Inl e
      | Inr (k, d) \<Rightarrow>
          cluster_loop grouping colors max_cluster ps
            (update_trace (setdefault traces k d) k (append_point p)))"

text \<open>The loop \<open>for i in range(17, 23, 1)\<close> (lines 391 to 396): \<open>traces[i]\<close> raises
  \<open>KeyError\<close> when no trace has the key.\<close>

definition restyle_cluster :: "int \<Rightarrow> cluster_trace \<Rightarrow> cluster_trace" where
  "restyle_cluster i t =
     t\<lparr>ct_size := 15, ct_symbol := symbols ! nat (i mod int (length symbols)),
       ct_color := ''black'', ct_visible := LegendOnly\<rparr>"

fun restyle_loop ::
  "(int \<Rightarrow> 'a \<Rightarrow> 'a) \<Rightarrow> int list \<Rightarrow> (int \<times> 'a) list \<Rightarrow> py_error + (int \<times> 'a) list" where
  "restyle_loop f [] traces = Inr traces"
| "restyle_loop f (i # rest) traces =
     (if i \<in> fst ` set traces then restyle_loop f rest (update_trace traces i (f i))
      else Inl KeyError)"

definition supplementary :: "int list" where
  "supplementary = [17, 18, 19, 20, 21, 22]"

definition restyle_species ::
  "string \<Rightarrow> (int \<Rightarrow> 'a \<Rightarrow> 'a) \<Rightarrow> (int \<times> 'a) list \<Rightarrow> py_error + (int \<times> 'a) list" where
  "restyle_species species f traces =
     (if species = ''mmu'' then restyle_loop f supplementary traces else Inr traces)"

text \<open>\<open>get_cluster_plot\<close>, up to the list of traces handed to Plot.ly, kept with their
  keys. The layout is a constant.\<close>

definition get_cluster_plot ::
  "store \<Rightarrow> nat list \<Rightarrow> string \<Rightarrow> string \<Rightarrow> py_error + (int \<times> cluster_trace) list" where
  "get_cluster_plot st tape species grouping =
     (case get_cluster_points st species of
        None \<Rightarrow> Inl FailToGraphException
      | Some points \<Rightarrow>
          if points = [] then Inl FailToGraphException
          else (case max_cluster_of (map (\<lambda>p. int_of_text (cluster_ordered p)) points) of
            Inl e \<Rightarrow> Inl e
          | Inr m \<Rightarrow>
             (case generate_cluster_colors tape (cap_max_cluster species m) of
                Inl e \<Rightarrow> Inl e
              | Inr colors \<Rightarrow>
                 (case cluster_loop grouping colors (cap_max_cluster species m) points [] of
                    Inl e \<Rightarrow> Inl e
                  | Inr traces \<Rightarrow> restyle_species species restyle_cluster traces))))"

subsection \<open>Gene box plots\<close>

record box_trace =
  bt_y :: "rat option list"
  bt_name :: string
  bt_visible :: visibility
  bt_color :: string
  bt_outliercolor :: string
  bt_size :: nat

text \<open>\<open>colors[(n - 1) % len(colors)]\<close>: the remainder raises \<open>ZeroDivisionError\<close> for
  an empty list.\<close>

definition color_mod :: "string list \<Rightarrow> int \<Rightarrow> py_error + string" where
  "color_mod colors n =
     (if colors = [] then Inl ZeroDivisionError
      else py_index colors ((n - 1) mod int (length colors)))"

definition box_default_trace ::
  "string list \<Rightarrow> number option joined \<Rightarrow> py_error + (int \<times> box_trace)" where
  "box_default_trace colors p =
     (case int_of_number (j_cluster_ordered p) of
        Inl e \<Rightarrow> Inl e
      | Inr n \<Rightarrow>
         (case color_mod colors n of
            Inl e \<Rightarrow> Inl e
          | Inr col \<Rightarrow>
              Inr (n, \<lparr>bt_y = [], bt_name = j_cluster_name p, bt_visible = Visible,
                       bt_color = col, bt_outliercolor = col, bt_size = 6\<rparr>)))"

definition append_level :: "string \<Rightarrow> number option joined \<Rightarrow> box_trace \<Rightarrow> box_trace" where
  "append_level level p t = t\<lparr>bt_y := bt_y t @ [level_value level p]\<rparr>"

fun box_loop ::
  "string \<Rightarrow> string list \<Rightarrow> number option joined list \<Rightarrow> (int \<times> box_trace) list
     \<Rightarrow> py_error + (int \<times> box_trace) list" where
  "box_loop level colors [] traces = Inr traces"
| "box_loop level colors (p # ps) traces =
     (case box_default_trace colors p of
        Inl e \<Rightarrow> Inl e
      | Inr (k, d) \<Rightarrow>
          box_loop level colors ps (update_trace (setdefault traces k d) k (append_level level p)))"

definition restyle_box :: "int \<Rightarrow> box_trace \<Rightarrow> box_trace" where
  "restyle_box i t =
     t\<lparr>bt_color := ''black'', bt_outliercolor := ''black'', bt_visible := LegendOnly\<rparr>"

text \<open>The figure of \<open>get_mch_box\<close>: the traces with their keys, and the title.\<close>

definition get_mch_box ::
  "store \<Rightarrow> nat list \<Rightarrow> string \<Rightarrow> string \<Rightarrow> string \<Rightarrow> bool
     \<Rightarrow> py_error + ((int \<times> box_trace) list \<times> string)" where
  "get_mch_box st tape species g level outliers =
     (case get_gene_mch st species g outliers of
        Inl e \<Rightarrow> Inl e
      | Inr points \<Rightarrow>
          if points = [] then Inl FailToGraphException
          else (case max_cluster_of (map (\<lambda>p. int_of_number (j_cluster_ordered p)) points) of
            Inl e \<Rightarrow> Inl e
          | Inr m \<Rightarrow>
             (case generate_cluster_colors tape (cap_max_cluster species m) of
                Inl e \<Rightarrow> Inl e
              | Inr colors \<Rightarrow>
                 (case box_loop level colors points [] of
                    Inl e \<Rightarrow> Inl e
                  | Inr traces \<Rightarrow>
                     (case restyle_species species restyle_box traces of
                        Inl e \<Rightarrow> Inl e
                      | Inr traces' \<Rightarrow>
                         (case gene_display_name st species g of
                            Inl e \<Rightarrow> Inl e
                          | Inr gname \<Rightarrow>
                              Inr (traces', ''Gene body mCH in each cluster: '' @ gname)))))))"

text \<open>\<open>get_ortholog_cluster_order\<close>: the pairs (species, cluster) of the
  correspondence table in the order of their first occurrence; the empty list when
  the file is absent.\<close>

definition add_cluster :: "(string \<times> int) list \<Rightarrow> string \<times> int \<Rightarrow> (string \<times> int) list" where
  "add_cluster clusters c = (if c \<in> set clusters then clusters else clusters @ [c])"

definition get_ortholog_cluster_order :: "store \<Rightarrow> (string \<times> int) list" where
  "get_ortholog_cluster_order st =
     (case homologous_cluster st of
        None \<Rightarrow> []
      | Some df \<Rightarrow>
          foldl (\<lambda>clusters row.
                   add_cluster (add_cluster clusters (''mmu'', fst row)) (''hsa'', snd row))
                [] df)"

text \<open>A value of a record handed out by \<open>to_dict('records')\<close>, as \<open>i.get(level)\<close> reads
  it: text, a float, the cluster number, or Python's \<open>None\<close> for a key the record does
  not have.\<close>

datatype cell = Text string | Number "rat option" | Ordered "number option" | Absent

definition joined_get :: "number option joined \<Rightarrow> string \<Rightarrow> cell" where
  "joined_get r k =
     (if k = ''samp'' then Text (j_samp r)
      else if k = ''tsne_x'' then Text (j_tsne_x r)
      else if k = ''tsne_y'' then Text (j_tsne_y r)
      else if k = ''cluster_label'' then Text (j_cluster_label r)
      else if k = ''cluster_name'' then Text (j_cluster_name r)
      else if k = ''cluster_ordered'' then Ordered (j_cluster_ordered r)
      else if k = ''cluster_ortholog'' then Text (j_cluster_ortholog r)
      else if k = ''original'' then Number (original r)
      else if k = ''normalized'' then Number (normalized r)
      else Absent)"

record species_box =
  sb_y :: "cell list"
  sb_x :: "string list"
  sb_color :: string
  sb_outliercolor :: string

definition species_trace :: "string \<Rightarrow> string \<Rightarrow> number option joined list \<Rightarrow> species_box" where
  "species_trace col level points =
     \<lparr>sb_y = map (\<lambda>i. joined_get i level) (filter (\<lambda>i. j_cluster_ortholog i \<noteq> []) points),
      sb_x = map j_cluster_ortholog (filter (\<lambda>i. j_cluster_ortholog i \<noteq> []) points),
      sb_color = col, sb_outliercolor = col\<rparr>"

definition get_mch_box_two_species ::
  "store \<Rightarrow> string \<Rightarrow> string \<Rightarrow> string \<Rightarrow> bool
     \<Rightarrow> py_error + (species_box list \<times> string)" where
  "get_mch_box_two_species st gene_mmu gene_hsa level outliers =
     (case get_gene_mch st ''mmu'' gene_mmu outliers of
        Inl e \<Rightarrow> Inl e
      | Inr points_mmu \<Rightarrow>
         (case get_gene_mch st ''hsa'' gene_hsa outliers of
            Inl e \<Rightarrow> Inl e
          | Inr points_hsa \<Rightarrow>
              if points_mmu = [] \<or> points_hsa = [] \<or> get_ortholog_cluster_order st = []
              then Inl FailToGraphException
              else (case gene_display_name st ''mmu'' gene_mmu of
                Inl e \<Rightarrow> Inl e
              | Inr gname \<Rightarrow>
                  Inr ([species_trace ''red'' level points_mmu,
                        species_trace ''black'' level points_hsa],
                       ''Gene body mCH in each cluster: '' @ gname))))"

subsection \<open>A small data directory\<close>

text \<open>
  Five mouse cells and two human cells. The measurement file of the mouse gene
  \<open>ENSMUSG1\<close> has one row per cell with the normalized values 1, 2, 3, 4 and 100, the
  file of \<open>ENSMUSG2\<close> has a single row without values, and the file of \<open>ENSMUSG3\<close>
  has two rows for the cell \<open>s1\<close>.
\<close>

definition mk_point :: "string \<Rightarrow> string \<Rightarrow> string \<Rightarrow> string \<Rightarrow> point" where
  "mk_point s ord orth bio =
     \<lparr>samp = s, tsne_x = ''0.5'', tsne_y = ''1.5'', cluster_label = ''L'' @ ord,
      cluster_name = ''c'' @ ord, cluster_ordered = ord, cluster_ortholog = orth,
      biosample = Some bio, layer = None, extra = []\<rparr>"

definition mk_row :: "string \<Rightarrow> string \<Rightarrow> rat option \<Rightarrow> rat option \<Rightarrow> mch_row" where
  "mk_row g s orig nrm =
     \<lparr>gene = g, m_samp = SampText s, m_original = orig, m_normalized = nrm\<rparr>"

definition demo_points :: "point list" where
  "demo_points =
     [mk_point ''s1'' ''1'' ''A'' ''1'', mk_point ''s2'' ''1'' ''A'' ''1'',
      mk_point ''s3'' ''2'' ''B'' ''1'', mk_point ''s4'' ''2'' [] ''1'',
      mk_point ''s5'' ''3'' [] ''1'']"

definition demo_rows :: "mch_row list" where
  "demo_rows =
     [mk_row ''ENSMUSG1'' ''s1'' (Some (1 / 10)) (Some 1),
      mk_row ''ENSMUSG1'' ''s2'' (Some (2 / 10)) (Some 2),
      mk_row ''ENSMUSG1'' ''s3'' (Some (3 / 10)) (Some 3),
      mk_row ''ENSMUSG1'' ''s4'' (Some (4 / 10)) (Some 4),
      mk_row ''ENSMUSG1'' ''s5'' (Some 10) (Some 100)]"

definition demo_store :: store where
  "demo_store =
     \<lparr>species_dirs = [''mmu'', ''hsa''],
      tsne_file = (\<lambda>s. if s = ''mmu'' then Some demo_points
                        else if s = ''hsa''
                        then Some [mk_point ''h1'' ''1'' ''A'' ''1'', mk_point ''h2'' ''2'' ''B'' ''1'']
                        else None),
      mch_files = (\<lambda>s. if s = ''mmu''
                        then [(''ENSMUSG1.txt'', demo_rows),
                              (''ENSMUSG2.txt'', [mk_row ''ENSMUSG2'' ''s1'' None None]),
                              (''ENSMUSG3.txt'',
                                 [mk_row ''ENSMUSG3'' ''s1'' (Some 1) (Some 2),
                                  mk_row ''ENSMUSG3'' ''s1'' (Some 3) (Some 4)])]
                        else if s = ''hsa''
                        then [(''ENSG1.txt'',
                                 [mk_row ''ENSG1'' ''h1'' (Some 1) (Some 2),
                                  mk_row ''ENSG1'' ''h2'' (Some 3) (Some 4)])]
                        else []),
      gene_names = (\<lambda>s. if s = ''mmu''
                         then [\<lparr>geneID = ''ENSMUSG1'', geneName = ''Gad1''\<rparr>,
                               \<lparr>geneID = ''ENSMUSG2'', geneName = ''Gad2''\<rparr>]
                         else if s = ''hsa'' then [\<lparr>geneID = ''ENSG1'', geneName = ''GAD1''\<rparr>]
                         else []),
      orthologs = [\<lparr>mmu_gID = Some ''ENSMUSG1'', hsa_gID = Some ''ENSG1''\<rparr>,
                   \<lparr>mmu_gID = Some ''ENSMUSG2'', hsa_gID = Some ''ENSG2''\<rparr>],
      homologous_cluster = Some [(1, 1), (2, 2)],
      sort_ties = []\<rparr>"

text \<open>The same directory after the rows that the first pass without outliers dropped
  have been taken out of the measurement file of \<open>ENSMUSG1\<close>.\<close>

definition demo_store_filtered :: store where
  "demo_store_filtered =
     demo_store\<lparr>mch_files := (\<lambda>s. if s = ''mmu''
                                   then [(''ENSMUSG1.txt'', butlast demo_rows)]
                                   else [])\<rparr>"

text \<open>A directory in which the embedding table of the mouse is missing and that of
  the human has a header and no row; the measurement files are those above.\<close>

definition no_embedding_store :: store where
  "no_embedding_store =
     demo_store\<lparr>tsne_file := (\<lambda>s. if s = ''hsa'' then Some [] else None)\<rparr>"

text \<open>A directory whose sample identifiers are numbers: the embedding table keeps them
  as text, and pandas reads the column of the measurement file as integers.\<close>

definition numeric_id_store :: store where
  "numeric_id_store =
     demo_store\<lparr>tsne_file := (\<lambda>s. if s = ''mmu''
                                   then Some [mk_point ''101'' ''1'' ''A'' ''1'',
                                              mk_point ''102'' ''2'' ''B'' ''1'']
                                   else None),
                 mch_files := (\<lambda>s. if s = ''mmu''
                                   then [(''ENSMUSG1.txt'',
                                          [\<lparr>gene = ''ENSMUSG1'', m_samp = SampNumber 101,
                                            m_original = Some 1, m_normalized = Some 2\<rparr>,
                                           \<lparr>gene = ''ENSMUSG1'', m_samp = SampNumber 102,
                                            m_original = Some 3, m_normalized = Some 4\<rparr>])]
                                   else [])\<rparr>"

text \<open>A mouse directory with a second biosample, whose six clusters get the group
  numbers 17 to 22 in the cluster plot.\<close>

definition cluster_demo_store :: store where
  "cluster_demo_store =
     demo_store\<lparr>tsne_file := (\<lambda>s. if s = ''mmu''
                                   then Some [mk_point ''a0'' ''1'' ''A'' ''1'',
                                              mk_point ''a1'' ''1'' ''A'' ''2'',
                                              mk_point ''a2'' ''2'' ''A'' ''2'',
                                              mk_point ''a3'' ''3'' ''B'' ''2'',
                                              mk_point ''a4'' ''4'' [] ''2'',
                                              mk_point ''a5'' ''5'' [] ''2'',
                                              mk_point ''a6'' ''6'' [] ''2'']
                                   else None)\<rparr>"

text \<open>A mouse directory with cells in the clusters 1 and 17 to 22, three of them
  with a measurement.\<close>

definition box_demo_store :: store where
  "box_demo_store =
     demo_store\<lparr>tsne_file := (\<lambda>s. if s = ''mmu''
                                   then Some [mk_point ''b0'' ''1'' ''A'' ''1'',
                                              mk_point ''b1'' ''17'' [] ''1'',
                                              mk_point ''b2'' ''18'' [] ''1'',
                                              mk_point ''b3'' ''19'' [] ''1'',
                                              mk_point ''b4'' ''20'' [] ''1'',
                                              mk_point ''b5'' ''21'' [] ''1'',
                                              mk_point ''b6'' ''22'' [] ''1'']
                                   else None),
                 mch_files := (\<lambda>s. if s = ''mmu''
                                   then [(''ENSMUSG1.txt'',
                                          [mk_row ''ENSMUSG1'' ''b0'' (Some 1) (Some 2),
                                           mk_row ''ENSMUSG1'' ''b1'' (Some 3) (Some 4),
                                           mk_row ''ENSMUSG1'' ''b4'' (Some 5) (Some 6)])]
                                   else [])\<rparr>"

subsection \<open>The groups of the mouse plots\<close>

text \<open>The key under which the cluster plot of the mouse files a point: its cluster
  number plus 16 for every biosample before its own. \<open>cluster_group points k\<close> says that
  some point has the key \<open>k\<close>.\<close>

definition cluster_group :: "point list \<Rightarrow> int \<Rightarrow> bool" where
  "cluster_group points k \<longleftrightarrow>
     (\<exists>p\<in>set points. \<exists>c bt b. py_int (cluster_ordered p) = Some c \<and> biosample p = Some bt
        \<and> py_int bt = Some b \<and> k = c + 16 * (b - 1))"

text \<open>The key under which the box plot files a record: its cluster number.\<close>

definition box_group :: "number option joined list \<Rightarrow> int \<Rightarrow> bool" where
  "box_group points k \<longleftrightarrow> (\<exists>p\<in>set points. int_of_number (j_cluster_ordered p) = Inr k)"

section \<open>Properties\<close>

subsection \<open>Auxiliary facts: sampling and quantiles\<close>

lemma swap_out_mset:
  assumes "j < length pool"
  shows "add_mset (pool ! j) (mset (butlast (pool[j := last pool]))) = mset pool"
proof -
  from assms have ne: "pool \<noteq> []" by auto
  then obtain ys l where pool: "pool = ys @ [l]"
    by (metis snoc_eq_iff_butlast)
  show ?thesis
  proof (cases "j < length ys")
    case True
    then have "butlast (pool[j := last pool]) = ys[j := l]"
      by (simp add: pool list_update_append)
    moreover have "pool ! j = ys ! j" using True by (simp add: pool nth_append)
    ultimately show ?thesis using True
      by (simp add: pool mset_update)
  next
    case False
    with assms have "j = length ys" by (simp add: pool)
    then show ?thesis by (simp add: pool)
  qed
qed

lemma sample_steps_mset:
  "length pool = k \<Longrightarrow> mset (sample_steps tape pool k) = mset pool"
proof (induction k arbitrary: tape pool)
  case 0
  then show ?case by simp
next
  case (Suc k)
  define j where "j = (case tape of [] \<Rightarrow> 0 | r # _ \<Rightarrow> r mod length pool)"
  have jlt: "j < length pool"
    using Suc.prems by (auto simp: j_def split: list.splits)
  have len: "length (butlast (pool[j := last pool])) = k"
    using Suc.prems by simp
  have "mset (sample_steps tape pool (Suc k))
      = add_mset (pool ! j) (mset (sample_steps (tl tape) (butlast (pool[j := last pool])) k))"
    by (simp add: j_def Let_def)
  also have "\<dots> = add_mset (pool ! j) (mset (butlast (pool[j := last pool])))"
    using Suc.IH [OF len] by simp
  also have "\<dots> = mset pool" by (rule swap_out_mset [OF jlt])
  finally show ?case .
qed

lemma py_sample_mset: "mset (py_sample tape c) = mset c"
  by (simp add: py_sample_def sample_steps_mset)

lemma py_sample_set: "set (py_sample tape c) = set c"
  by (metis py_sample_mset set_mset_mset)

lemma py_sample_length: "length (py_sample tape c) = length c"
  by (metis py_sample_mset size_mset)

lemma pick_out_mset:
  assumes "j < length xs"
  shows "add_mset (xs ! j) (mset (take j xs @ drop (Suc j) xs)) = mset xs"
proof -
  have "mset (take j xs @ xs ! j # drop (Suc j) xs) = mset xs"
    by (simp only: id_take_nth_drop [OF assms, symmetric])
  then show ?thesis by simp
qed

lemma pick_order_mset:
  "length xs = k \<Longrightarrow> mset (pick_order tape xs k) = mset xs"
proof (induction k arbitrary: tape xs)
  case 0
  then show ?case by simp
next
  case (Suc k)
  define j where "j = (case tape of [] \<Rightarrow> 0 | r # _ \<Rightarrow> r mod length xs)"
  have jlt: "j < length xs"
    using Suc.prems by (auto simp: j_def split: list.splits)
  have len: "length (take j xs @ drop (Suc j) xs) = k"
    using Suc.prems jlt by simp
  have "mset (pick_order tape xs (Suc k))
      = add_mset (xs ! j) (mset (pick_order (tl tape) (take j xs @ drop (Suc j) xs) k))"
    by (simp add: j_def Let_def)
  also have "\<dots> = add_mset (xs ! j) (mset (take j xs @ drop (Suc j) xs))"
    using Suc.IH [OF len] by simp
  also have "\<dots> = mset xs" by (rule pick_out_mset [OF jlt])
  finally show ?case .
qed

lemma sort_values_mset: "mset (sort_values tape rows) = mset rows"
  by (simp add: sort_values_def pick_order_mset)

lemma sort_values_set: "set (sort_values tape rows) = set rows"
  by (metis sort_values_mset set_mset_mset)

lemma sort_values_length: "length (sort_values tape rows) = length rows"
  by (metis sort_values_mset size_mset)

lemma sort_values_sorted: "sorted (map order_key (sort_values tape rows))"
  by (simp add: sort_values_def)

lemma interpolate_le_last:
  assumes srt: "sorted s" and ne: "s \<noteq> []" and h0: "0 \<le> h"
    and hn: "h \<le> of_nat (length s - 1)"
  shows "interpolate s h \<le> last s"
proof -
  define i where "i = nat \<lfloor>h\<rfloor>"
  define g where "g = h - of_int \<lfloor>h\<rfloor>"
  have fl: "\<lfloor>h\<rfloor> \<le> int (length s - 1)"
  proof -
    have "\<lfloor>h\<rfloor> \<le> \<lfloor>(of_nat (length s - 1) :: rat)\<rfloor>" using hn by (rule floor_mono)
    then show ?thesis by simp
  qed
  have fl0: "0 \<le> \<lfloor>h\<rfloor>" using h0 by simp
  have ile: "i \<le> length s - 1" using fl fl0 by (simp add: i_def)
  have lastn: "last s = s ! (length s - 1)" using ne by (simp add: last_conv_nth)
  have lt: "length s - 1 < length s" using ne by simp
  show ?thesis
  proof (cases "g = 0")
    case True
    then have "interpolate s h = s ! i" by (simp add: interpolate_def i_def g_def)
    moreover have "s ! i \<le> s ! (length s - 1)"
      using srt ile lt by (rule sorted_nth_mono)
    ultimately show ?thesis by (simp add: lastn)
  next
    case False
    have fle: "of_int \<lfloor>h\<rfloor> \<le> h" by (rule of_int_floor_le)
    have flt: "h < of_int \<lfloor>h\<rfloor> + 1" by linarith
    have g0: "0 \<le> g" using fle by (simp add: g_def)
    have g1: "g \<le> 1" using flt by (simp add: g_def)
    have gne: "h - of_int \<lfloor>h\<rfloor> \<noteq> 0" using False unfolding g_def .
    have "(of_int \<lfloor>h\<rfloor> :: rat) < h" using fle gne by linarith
    then have "(of_int \<lfloor>h\<rfloor> :: rat) < of_int (int (length s - 1))" using hn by simp
    then have "\<lfloor>h\<rfloor> < int (length s - 1)" by (simp only: of_int_less_iff)
    then have i1: "i + 1 \<le> length s - 1" using fl0 unfolding i_def by linarith
    have ab: "s ! i \<le> s ! (i + 1)"
      using srt _ _ by (rule sorted_nth_mono) (use i1 lt in simp_all)
    have "interpolate s h = s ! i + (s ! (i + 1) - s ! i) * g"
      using gne by (simp add: interpolate_def i_def g_def Let_def)
    also have "\<dots> \<le> s ! i + (s ! (i + 1) - s ! i) * 1"
    proof -
      have "0 \<le> s ! (i + 1) - s ! i" using ab by simp
      then have "(s ! (i + 1) - s ! i) * g \<le> (s ! (i + 1) - s ! i) * 1"
        using g1 by (rule mult_left_mono [rotated])
      then show ?thesis by simp
    qed
    also have "\<dots> = s ! (i + 1)" by simp
    also have "\<dots> \<le> s ! (length s - 1)" using srt i1 lt by (rule sorted_nth_mono)
    finally show ?thesis by (simp add: lastn)
  qed
qed

lemma quantile_sorted_bounded:
  assumes ne: "xs \<noteq> []" and q0: "0 \<le> q" and q1: "q \<le> 1"
  shows "\<exists>v. quantile_sorted xs q = Some v \<and> (\<exists>x\<in>set xs. v \<le> x)"
proof -
  have s1: "sorted (sort xs)" by simp
  have s2: "sort xs \<noteq> []" using ne by (metis length_sort length_0_conv)
  have h0: "0 \<le> of_nat (length xs - 1) * q" using q0 by simp
  have "of_nat (length xs - 1) * q \<le> (of_nat (length xs - 1) :: rat) * 1"
    using q1 by (intro mult_left_mono) simp_all
  then have hn: "of_nat (length xs - 1) * q \<le> of_nat (length (sort xs) - 1)" by simp
  have le: "interpolate (sort xs) (of_nat (length xs - 1) * q) \<le> last (sort xs)"
    by (rule interpolate_le_last [OF s1 s2 h0 hn])
  have "last (sort xs) \<in> set (sort xs)" using s2 by (rule last_in_set)
  then have "last (sort xs) \<in> set xs" by simp
  with le ne show ?thesis by (auto simp: quantile_sorted_def)
qed

subsection \<open>Auxiliary facts: the outlier filter\<close>

lemma in_dropna: "x \<in> set (dropna vs) \<longleftrightarrow> Some x \<in> set vs"
  by (force simp: dropna_def image_iff)

lemma nan_less_Some: "nan_less a b \<longleftrightarrow> (\<exists>x y. a = Some x \<and> b = Some y \<and> x < y)"
  by (auto simp: nan_less_def split: option.splits)

lemma quantile_sorted_None: "quantile_sorted xs q = None \<longleftrightarrow> xs = []"
  by (simp add: quantile_sorted_def)

lemma quantile_sorted_mset:
  assumes "mset xs = mset ys"
  shows "quantile_sorted xs q = quantile_sorted ys q"
proof -
  have "sort xs = sort ys"
    using assms by (metis properties_for_sort sorted_sort mset_sort)
  moreover have "length xs = length ys" using assms by (rule mset_eq_length)
  moreover have "xs = [] \<longleftrightarrow> ys = []" using assms by (metis mset_zero_iff)
  ultimately show ?thesis by (simp add: quantile_sorted_def)
qed

lemma remove_outliers_member:
  assumes "r \<in> set (remove_outliers rows)"
  shows "r \<in> set rows \<and> (\<exists>v q. normalized r = Some v \<and> three_std_dev rows = Some q \<and> v < q)"
  using assms by (auto simp: remove_outliers_def nan_less_Some)

lemma remove_outliers_drops_one:
  assumes "rows \<noteq> []"
  shows "\<exists>r\<in>set rows. \<not> nan_less (normalized r) (three_std_dev rows)"
proof (cases "three_std_dev rows")
  case None
  then show ?thesis using assms by (auto simp: nan_less_Some neq_Nil_conv)
next
  case (Some q)
  define vals where "vals = dropna (map normalized rows)"
  have ne: "vals \<noteq> []"
    using Some by (auto simp: three_std_dev_def vals_def quantile_sorted_def split: if_splits)
  have "\<exists>v. quantile_sorted vals (99 / 100) = Some v \<and> (\<exists>x\<in>set vals. v \<le> x)"
    by (rule quantile_sorted_bounded [OF ne]) simp_all
  then obtain x where x: "x \<in> set vals" "q \<le> x"
    using Some by (auto simp: three_std_dev_def vals_def)
  from x(1) obtain r where r: "r \<in> set rows" "normalized r = Some x"
    by (auto simp: vals_def in_dropna)
  have "\<not> nan_less (normalized r) (three_std_dev rows)"
    using r(2) x(2) Some by (simp add: nan_less_Some)
  with r(1) show ?thesis by blast
qed

lemma remove_outliers_shorter:
  assumes "rows \<noteq> []"
  shows "length (remove_outliers rows) < length rows"
  using remove_outliers_drops_one [OF assms]
  by (auto simp: remove_outliers_def intro: length_filter_less)

lemma remove_outliers_subseq: "mset (remove_outliers rows) \<subseteq># mset rows"
  by (simp add: remove_outliers_def)

lemma normalized_to_numeric [simp]: "normalized (to_numeric r) = normalized r"
  by (simp add: to_numeric_def)

lemma original_to_numeric [simp]: "original (to_numeric r) = original r"
  by (simp add: to_numeric_def)

lemma j_samp_to_numeric [simp]: "j_samp (to_numeric r) = j_samp r"
  by (simp add: to_numeric_def)

lemma three_std_dev_mset:
  assumes "mset (map normalized rows) = mset (map normalized rows')"
  shows "three_std_dev rows = three_std_dev rows'"
proof -
  have "mset (dropna (map normalized rows)) = mset (dropna (map normalized rows'))"
    using assms by (simp add: dropna_def mset_filter [symmetric] del: mset_filter mset_map)
       (metis mset_filter mset_map)
  then show ?thesis unfolding three_std_dev_def by (rule quantile_sorted_mset)
qed

lemma three_std_dev_sorted_frame:
  "three_std_dev (sort_values tape (map to_numeric rows)) = three_std_dev rows"
proof (rule three_std_dev_mset)
  have "mset (map normalized (sort_values tape (map to_numeric rows)))
        = image_mset normalized (mset (sort_values tape (map to_numeric rows)))"
    by simp
  also have "\<dots> = image_mset normalized (mset (map to_numeric rows))"
    by (simp only: sort_values_mset)
  also have "\<dots> = mset (map normalized rows)"
    by (simp add: multiset.map_comp comp_def)
  finally show "mset (map normalized (sort_values tape (map to_numeric rows)))
        = mset (map normalized rows)" .
qed

subsection \<open>Auxiliary facts: the join\<close>

lemma get_gene_mch_cases:
  assumes "get_gene_mch st species g outliers = Inr rs"
  shows "(\<forall>b. get_gene_mch st species g b = Inr [])
       \<or> (\<exists>f fs cluster. species_exists st species \<and> glob_mch st species g = f # fs
             \<and> samp_is_text (snd f) \<and> get_cluster_points st species = Some cluster
             \<and> cluster \<noteq> []
             \<and> (\<forall>b. get_gene_mch st species g b
                       = Inr (join_frames (sort_ties st) cluster (snd f) b)))"
  using assms
  by (auto simp: get_gene_mch_def gene_exists_def split: list.splits if_splits option.splits)

lemma get_gene_mch_joined:
  assumes "species_exists st species" and "glob_mch st species g = f # fs"
    and "get_cluster_points st species = Some cluster" and "cluster \<noteq> []"
    and "samp_is_text (snd f)"
  shows "get_gene_mch st species g b = Inr (join_frames (sort_ties st) cluster (snd f) b)"
  using assms by (simp add: get_gene_mch_def gene_exists_def)

lemma join_frames_True:
  "join_frames tape cluster mch True
   = sort_values tape (map to_numeric (merge_left cluster mch))"
  by (simp add: join_frames_def)

lemma join_frames_False:
  "join_frames tape cluster mch False
   = sort_values tape (map to_numeric (remove_outliers (merge_left cluster mch)))"
  by (simp add: join_frames_def)

lemma join_frames_outliers:
  fixes tape cluster mch
  defines "rs \<equiv> join_frames tape cluster mch False"
    and "rs' \<equiv> join_frames tape cluster mch True"
  shows "(\<forall>r\<in>set rs. \<exists>v q. normalized r = Some v \<and> three_std_dev rs' = Some q \<and> v < q)
       \<and> mset rs \<subseteq># mset rs' \<and> (rs' \<noteq> [] \<longrightarrow> length rs < length rs')"
proof -
  define M where "M = merge_left cluster mch"
  have rs: "rs = sort_values tape (map to_numeric (remove_outliers M))"
    by (simp add: rs_def join_frames_False M_def)
  have rs': "rs' = sort_values tape (map to_numeric M)"
    by (simp add: rs'_def join_frames_True M_def)
  have q: "three_std_dev rs' = three_std_dev M"
    unfolding rs' by (rule three_std_dev_sorted_frame)
  have a: "\<forall>r\<in>set rs. \<exists>v q. normalized r = Some v \<and> three_std_dev rs' = Some q \<and> v < q"
  proof
    fix r assume "r \<in> set rs"
    then obtain r0 where r0: "r0 \<in> set (remove_outliers M)" "r = to_numeric r0"
      by (auto simp: rs sort_values_set)
    from remove_outliers_member [OF r0(1)]
    show "\<exists>v q. normalized r = Some v \<and> three_std_dev rs' = Some q \<and> v < q"
      by (simp add: r0(2) q)
  qed
  have b: "mset rs \<subseteq># mset rs'"
    unfolding rs rs' sort_values_mset
    by (simp add: image_mset_subseteq_mono remove_outliers_subseq)
  have c: "rs' \<noteq> [] \<longrightarrow> length rs < length rs'"
  proof
    assume "rs' \<noteq> []"
    then have "length rs' \<noteq> 0" by simp
    then have "M \<noteq> []" by (auto simp: rs' sort_values_length)
    then have "length (remove_outliers M) < length M" by (rule remove_outliers_shorter)
    then show "length rs < length rs'" by (simp add: rs rs' sort_values_length)
  qed
  from a b c show ?thesis by blast
qed

lemma filter_key_distinct:
  assumes "distinct (map f xs)"
  shows "length (filter (\<lambda>x. f x = k) xs) \<le> 1"
  using assms
proof (induction xs)
  case Nil
  then show ?case by simp
next
  case (Cons x xs)
  show ?case
  proof (cases "f x = k")
    case True
    then have "\<forall>y\<in>set xs. f y \<noteq> k" using Cons.prems by (force simp: image_iff)
    then have "filter (\<lambda>x. f x = k) xs = []" by (simp add: filter_empty_conv)
    with True show ?thesis by simp
  next
    case False
    then show ?thesis using Cons by simp
  qed
qed

lemma filter_find:
  assumes "length (filter P xs) \<le> 1"
  shows "filter P xs = (case find P xs of None \<Rightarrow> [] | Some x \<Rightarrow> [x])"
  using assms
proof (induction xs)
  case Nil
  then show ?case by simp
next
  case (Cons x xs)
  show ?case
  proof (cases "P x")
    case True
    with Cons.prems have "filter P xs = []" by simp
    with True show ?thesis by simp
  next
    case False
    with Cons show ?thesis by simp
  qed
qed

lemma merge_left_row_ne: "merge_left_row mch p \<noteq> []"
  by (simp add: merge_left_row_def split: list.splits)

lemma merge_left_row_samp: "r \<in> set (merge_left_row mch p) \<Longrightarrow> j_samp r = samp p"
  by (auto simp: merge_left_row_def join_row_def split: list.splits)

lemma merge_left_length_ge: "length cluster \<le> length (merge_left cluster mch)"
proof (induction cluster)
  case Nil
  then show ?case by (simp add: merge_left_def)
next
  case (Cons p ps)
  have "1 \<le> length (merge_left_row mch p)"
    using merge_left_row_ne [of mch p] by (cases "merge_left_row mch p") simp_all
  then show ?case using Cons by (simp add: merge_left_def)
qed

text \<open>With at most one measurement row per sample, the merge has exactly one row per
  embedding row: the embedding row with the values of its measurement row, or with
  NaN when it has none.\<close>

lemma merge_left_row_distinct:
  assumes "distinct (map m_samp mch)"
  shows "merge_left_row mch p
         = [case find (\<lambda>m. m_samp m = SampText (samp p)) mch of
              None \<Rightarrow> join_row p None None
            | Some m \<Rightarrow> join_row p (m_original m) (m_normalized m)]"
proof -
  have "length (filter (\<lambda>m. m_samp m = SampText (samp p)) mch) \<le> 1"
    using assms by (rule filter_key_distinct)
  then have "filter (\<lambda>m. m_samp m = SampText (samp p)) mch
             = (case find (\<lambda>m. m_samp m = SampText (samp p)) mch of
                  None \<Rightarrow> [] | Some x \<Rightarrow> [x])"
    by (rule filter_find)
  then show ?thesis
    by (simp add: merge_left_row_def split: option.splits)
qed

lemma merge_left_distinct:
  assumes "distinct (map m_samp mch)"
  shows "merge_left cluster mch
         = map (\<lambda>p. case find (\<lambda>m. m_samp m = SampText (samp p)) mch of
                       None \<Rightarrow> join_row p None None
                     | Some m \<Rightarrow> join_row p (m_original m) (m_normalized m)) cluster"
  by (induction cluster) (simp_all add: merge_left_def merge_left_row_distinct [OF assms])

lemma left_join_one_record_per_row:
  assumes "species_exists st species" and "glob_mch st species g = f # fs"
    and "get_cluster_points st species = Some cluster" and "cluster \<noteq> []"
    and "samp_is_text (snd f)" and "distinct (map m_samp (snd f))"
  shows "\<exists>rs. get_gene_mch st species g True = Inr rs
          \<and> length rs = length cluster
          \<and> mset rs
            = image_mset
                (\<lambda>p. to_numeric
                        (case find (\<lambda>m. m_samp m = SampText (samp p)) (snd f) of
                           None \<Rightarrow> join_row p None None
                         | Some m \<Rightarrow> join_row p (m_original m) (m_normalized m)))
                (mset cluster)"
proof -
  have g: "get_gene_mch st species g True
           = Inr (sort_values (sort_ties st) (map to_numeric (merge_left cluster (snd f))))"
    using get_gene_mch_joined [OF assms(1-5), of True] by (simp add: join_frames_True)
  have m: "merge_left cluster (snd f)
         = map (\<lambda>p. case find (\<lambda>m. m_samp m = SampText (samp p)) (snd f) of
                       None \<Rightarrow> join_row p None None
                     | Some m \<Rightarrow> join_row p (m_original m) (m_normalized m)) cluster"
    using assms(6) by (rule merge_left_distinct)
  have l: "length (sort_values (sort_ties st) (map to_numeric (merge_left cluster (snd f))))
           = length cluster"
    by (simp add: sort_values_length m)
  have s: "mset (sort_values (sort_ties st) (map to_numeric (merge_left cluster (snd f))))
            = image_mset
                (\<lambda>p. to_numeric
                        (case find (\<lambda>m. m_samp m = SampText (samp p)) (snd f) of
                           None \<Rightarrow> join_row p None None
                         | Some m \<Rightarrow> join_row p (m_original m) (m_normalized m)))
                (mset cluster)"
    by (simp add: sort_values_mset m multiset.map_comp comp_def)
  from g l s show ?thesis by simp
qed

subsection \<open>Auxiliary facts: the sixteen hues\<close>

lemma hsl_16:
  "linspace_0_360 16
   = Inr [0, 24, 48, 72, 96, 120, 144, 168, 192, 216, 240, 264, 288, 312, 336, 360]"
  by code_simp

lemma hsl_16_strings:
  "map hsl [0, 24, 48, 72, 96, 120, 144, 168, 192, 216, 240, 264, 288, 312, 336, 360]
   = [''hsl(0,50%,50%)'', ''hsl(24,50%,50%)'', ''hsl(48,50%,50%)'', ''hsl(72,50%,50%)'',
      ''hsl(96,50%,50%)'', ''hsl(120,50%,50%)'', ''hsl(144,50%,50%)'', ''hsl(168,50%,50%)'',
      ''hsl(192,50%,50%)'', ''hsl(216,50%,50%)'', ''hsl(240,50%,50%)'', ''hsl(264,50%,50%)'',
      ''hsl(288,50%,50%)'', ''hsl(312,50%,50%)'', ''hsl(336,50%,50%)'', ''hsl(360,50%,50%)'']"
  by code_simp

subsection \<open>Auxiliary facts: the dictionaries of traces\<close>

lemma fst_update_trace: "map fst (update_trace traces k f) = map fst traces"
  by (induction traces) (auto simp: update_trace_def)

lemma keys_update_trace: "fst ` set (update_trace traces k f) = fst ` set traces"
  using fst_update_trace [of traces k f] by (metis set_map)

lemma update_trace_inv:
  assumes "\<forall>(k', t)\<in>set traces. Q k' t" and "\<And>t. Q k t \<Longrightarrow> Q k (f t)"
  shows "\<forall>(k', t)\<in>set (update_trace traces k f). Q k' t"
  using assms by (auto simp: update_trace_def split: if_splits)

lemma setdefault_inv:
  assumes "\<forall>(k', t)\<in>set traces. Q k' t" and "Q k d"
  shows "\<forall>(k', t)\<in>set (setdefault traces k d). Q k' t"
  using assms by (auto simp: setdefault_def)

lemma py_index_member:
  assumes "py_index xs i = Inr x"
  shows "x \<in> set xs"
proof (cases "0 \<le> i \<and> i < int (length xs)")
  case True
  then have "nat i < length xs" by linarith
  then have "xs ! nat i \<in> set xs" by (rule nth_mem)
  with True assms show ?thesis by (simp add: py_index_def)
next
  case False
  with assms have neg: "i < 0 \<and> - int (length xs) \<le> i" and x: "x = xs ! nat (int (length xs) + i)"
    by (auto simp: py_index_def split: if_splits)
  from neg have "nat (int (length xs) + i) < length xs" by linarith
  then show ?thesis unfolding x by (rule nth_mem)
qed

lemma color_mod_member: "color_mod colors n = Inr c \<Longrightarrow> c \<in> set colors"
  by (auto simp: color_mod_def dest: py_index_member split: if_splits)

lemma hsl_not_black: "hsl h \<noteq> ''black''"
  by (simp add: hsl_def)

lemma generate_cluster_colors_not_black:
  assumes "generate_cluster_colors tape n = Inr colors"
  shows "\<forall>c\<in>set colors. c \<noteq> ''black''"
proof -
  from assms obtain hs where "colors = py_sample tape (map hsl hs)"
    by (auto simp: generate_cluster_colors_def split: sum.splits)
  then have "set colors = hsl ` set hs" by (simp add: py_sample_set)
  then show ?thesis using hsl_not_black by auto
qed

lemma in_supplementary: "k \<in> set supplementary \<longleftrightarrow> 17 \<le> k \<and> k \<le> 22"
  by (auto simp: supplementary_def)

lemma distinct_supplementary: "distinct supplementary"
  by (simp add: supplementary_def)

lemma restyle_loop_result:
  assumes "restyle_loop f ks traces = Inr out" and "distinct ks"
  shows "set ks \<subseteq> fst ` set traces
       \<and> out = map (\<lambda>(k, t). (k, if k \<in> set ks then f k t else t)) traces"
  using assms
proof (induction ks arbitrary: traces)
  case Nil
  then show ?case by (simp add: case_prod_beta)
next
  case (Cons i rest)
  from Cons.prems(1) have mem: "i \<in> fst ` set traces"
    and loop: "restyle_loop f rest (update_trace traces i (f i)) = Inr out"
    by (auto split: if_splits)
  from Cons.prems(2) have d: "distinct rest" and ni: "i \<notin> set rest" by simp_all
  from Cons.IH [OF loop d]
  have sub: "set rest \<subseteq> fst ` set (update_trace traces i (f i))"
    and out: "out = map (\<lambda>(k, t). (k, if k \<in> set rest then f k t else t))
                      (update_trace traces i (f i))"
    by simp_all
  have "out = map (\<lambda>(k, t). (k, if k \<in> set (i # rest) then f k t else t)) traces"
    unfolding out update_trace_def using ni by (auto simp: case_prod_beta)
  moreover have "set (i # rest) \<subseteq> fst ` set traces"
    using mem sub by (simp add: keys_update_trace)
  ultimately show ?case by simp
qed

lemma cluster_default_trace_Inr:
  assumes "cluster_default_trace grouping colors mc p = Inr (k, d)"
  shows "(\<exists>c bt b. py_int (cluster_ordered p) = Some c \<and> biosample p = Some bt
            \<and> py_int bt = Some b \<and> k = c + mc * (b - 1))
       \<and> ct_visible d = Visible \<and> ct_size d = 7 \<and> ct_color d \<in> set colors"
  using assms
  by (auto simp: cluster_default_trace_def dest: py_index_member
           split: option.splits sum.splits)

lemma cluster_loop_inv:
  assumes "cluster_loop grouping colors mc ps traces = Inr out"
    and "\<forall>(k, t)\<in>set traces. Q k t"
    and "\<And>p k d. p \<in> set ps \<Longrightarrow> cluster_default_trace grouping colors mc p = Inr (k, d) \<Longrightarrow> Q k d"
    and "\<And>p k t. Q k t \<Longrightarrow> Q k (append_point p t)"
  shows "\<forall>(k, t)\<in>set out. Q k t"
  using assms
proof (induction ps arbitrary: traces)
  case Nil
  then show ?case by simp
next
  case (Cons p ps)
  from Cons.prems(1) obtain k d
    where kd: "cluster_default_trace grouping colors mc p = Inr (k, d)"
      and loop: "cluster_loop grouping colors mc ps
                   (update_trace (setdefault traces k d) k (append_point p)) = Inr out"
    by (auto split: sum.splits)
  have "Q k d" using Cons.prems(3) [of p k d] kd by simp
  with Cons.prems(2) have "\<forall>(k', t)\<in>set (setdefault traces k d). Q k' t"
    by (rule setdefault_inv)
  then have inv: "\<forall>(k', t)\<in>set (update_trace (setdefault traces k d) k (append_point p)). Q k' t"
    by (rule update_trace_inv) (rule Cons.prems(4))
  show ?case
  proof (rule Cons.IH [OF loop inv])
    fix p' k' d'
    assume "p' \<in> set ps" and "cluster_default_trace grouping colors mc p' = Inr (k', d')"
    then show "Q k' d'" using Cons.prems(3) [of p' k' d'] by simp
  next
    fix p' k' t
    assume "Q k' t"
    then show "Q k' (append_point p' t)" by (rule Cons.prems(4))
  qed
qed

lemma box_default_trace_Inr:
  assumes "box_default_trace colors p = Inr (k, d)"
  shows "int_of_number (j_cluster_ordered p) = Inr k \<and> bt_visible d = Visible
       \<and> bt_color d \<in> set colors \<and> bt_outliercolor d = bt_color d"
  using assms
  by (auto simp: box_default_trace_def dest: color_mod_member split: option.splits sum.splits)

lemma box_loop_inv:
  assumes "box_loop level colors ps traces = Inr out"
    and "\<forall>(k, t)\<in>set traces. Q k t"
    and "\<And>p k d. p \<in> set ps \<Longrightarrow> box_default_trace colors p = Inr (k, d) \<Longrightarrow> Q k d"
    and "\<And>p k t. Q k t \<Longrightarrow> Q k (append_level level p t)"
  shows "\<forall>(k, t)\<in>set out. Q k t"
  using assms
proof (induction ps arbitrary: traces)
  case Nil
  then show ?case by simp
next
  case (Cons p ps)
  from Cons.prems(1) obtain k d
    where kd: "box_default_trace colors p = Inr (k, d)"
      and loop: "box_loop level colors ps
                   (update_trace (setdefault traces k d) k (append_level level p)) = Inr out"
    by (auto split: sum.splits)
  have "Q k d" using Cons.prems(3) [of p k d] kd by simp
  with Cons.prems(2) have "\<forall>(k', t)\<in>set (setdefault traces k d). Q k' t"
    by (rule setdefault_inv)
  then have inv: "\<forall>(k', t)\<in>set (update_trace (setdefault traces k d) k (append_level level p)). Q k' t"
    by (rule update_trace_inv) (rule Cons.prems(4))
  show ?case
  proof (rule Cons.IH [OF loop inv])
    fix p' k' d'
    assume "p' \<in> set ps" and "box_default_trace colors p' = Inr (k', d')"
    then show "Q k' d'" using Cons.prems(3) [of p' k' d'] by simp
  next
    fix p' k' t
    assume "Q k' t"
    then show "Q k' (append_level level p' t)" by (rule Cons.prems(4))
  qed
qed

subsection \<open>Auxiliary facts: the mouse plots\<close>

lemma get_cluster_plot_mmu:
  assumes "get_cluster_plot st tape ''mmu'' grouping = Inr traces"
  shows "\<exists>colors points. generate_cluster_colors tape 16 = Inr colors
          \<and> get_cluster_points st ''mmu'' = Some points
          \<and> (\<forall>i. 17 \<le> i \<and> i \<le> 22 \<longrightarrow> i \<in> fst ` set traces)
          \<and> (\<forall>(k, t)\<in>set traces.
                cluster_group points k
                \<and> (if 17 \<le> k \<and> k \<le> 22
                   then ct_visible t = LegendOnly \<and> ct_color t = ''black'' \<and> ct_size t = 15
                   else ct_visible t = Visible \<and> ct_color t \<in> set colors
                        \<and> ct_color t \<noteq> ''black'' \<and> ct_size t = 7))"
proof -
  from assms obtain points colors t0
    where pts: "get_cluster_points st ''mmu'' = Some points"
      and col: "generate_cluster_colors tape 16 = Inr colors"
      and loop: "cluster_loop grouping colors 16 points [] = Inr t0"
      and re: "restyle_loop restyle_cluster supplementary t0 = Inr traces"
    by (auto simp: get_cluster_plot_def cap_max_cluster_def restyle_species_def
             split: option.splits if_splits sum.splits)
  define Q where "Q k t \<longleftrightarrow> cluster_group points k \<and> ct_visible t = Visible
                     \<and> ct_size t = 7 \<and> ct_color t \<in> set colors" for k and t :: cluster_trace
  have inv: "\<forall>(k, t)\<in>set t0. Q k t"
  proof (rule cluster_loop_inv [OF loop])
    show "\<forall>(k, t)\<in>set []. Q k t" by simp
  next
    fix p k d
    assume p: "p \<in> set points" and "cluster_default_trace grouping colors 16 p = Inr (k, d)"
    from cluster_default_trace_Inr [OF this(2)] p
    show "Q k d" unfolding Q_def cluster_group_def by blast
  next
    fix p k t
    assume "Q k t"
    then show "Q k (append_point p t)" by (simp add: Q_def append_point_def)
  qed
  from restyle_loop_result [OF re distinct_supplementary]
  have sub: "set supplementary \<subseteq> fst ` set t0"
    and out: "traces = map (\<lambda>(k, t). (k, if k \<in> set supplementary then restyle_cluster k t else t)) t0"
    by simp_all
  have keys: "fst ` set traces = fst ` set t0"
    unfolding out by (force simp: image_iff case_prod_beta)
  have a: "\<forall>i. 17 \<le> i \<and> i \<le> 22 \<longrightarrow> i \<in> fst ` set traces"
    using sub unfolding keys by (auto simp: in_supplementary [symmetric])
  have nb: "\<forall>c\<in>set colors. c \<noteq> ''black''"
    using col by (rule generate_cluster_colors_not_black)
  have b: "\<forall>(k, t)\<in>set traces.
                cluster_group points k
                \<and> (if 17 \<le> k \<and> k \<le> 22
                   then ct_visible t = LegendOnly \<and> ct_color t = ''black'' \<and> ct_size t = 15
                   else ct_visible t = Visible \<and> ct_color t \<in> set colors
                        \<and> ct_color t \<noteq> ''black'' \<and> ct_size t = 7)"
  proof (clarify)
    fix k t assume "(k, t) \<in> set traces"
    then obtain t' where t': "(k, t') \<in> set t0"
      and t: "t = (if k \<in> set supplementary then restyle_cluster k t' else t')"
      unfolding out by auto
    from inv t' have q: "Q k t'" by auto
    show "cluster_group points k
                \<and> (if 17 \<le> k \<and> k \<le> 22
                   then ct_visible t = LegendOnly \<and> ct_color t = ''black'' \<and> ct_size t = 15
                   else ct_visible t = Visible \<and> ct_color t \<in> set colors
                        \<and> ct_color t \<noteq> ''black'' \<and> ct_size t = 7)"
      using q nb unfolding t in_supplementary Q_def by (simp add: restyle_cluster_def)
  qed
  from col pts a b show ?thesis by blast
qed

lemma get_mch_box_mmu:
  assumes "get_mch_box st tape ''mmu'' g level outliers = Inr (boxes, title)"
  shows "\<exists>colors points. generate_cluster_colors tape 16 = Inr colors
          \<and> get_gene_mch st ''mmu'' g outliers = Inr points
          \<and> (\<forall>i. 17 \<le> i \<and> i \<le> 22 \<longrightarrow> i \<in> fst ` set boxes)
          \<and> (\<forall>(k, t)\<in>set boxes.
                box_group points k
                \<and> (if 17 \<le> k \<and> k \<le> 22
                   then bt_visible t = LegendOnly \<and> bt_color t = ''black''
                        \<and> bt_outliercolor t = ''black''
                   else bt_visible t = Visible \<and> bt_color t \<in> set colors
                        \<and> bt_color t \<noteq> ''black'' \<and> bt_outliercolor t = bt_color t))"
proof -
  from assms obtain points colors t0
    where pts: "get_gene_mch st ''mmu'' g outliers = Inr points"
      and col: "generate_cluster_colors tape 16 = Inr colors"
      and loop: "box_loop level colors points [] = Inr t0"
      and re: "restyle_loop restyle_box supplementary t0 = Inr boxes"
    by (auto simp: get_mch_box_def cap_max_cluster_def restyle_species_def
             split: option.splits if_splits sum.splits)
  define Q where "Q k t \<longleftrightarrow> box_group points k
                     \<and> bt_visible t = Visible \<and> bt_color t \<in> set colors
                     \<and> bt_outliercolor t = bt_color t" for k and t :: box_trace
  have inv: "\<forall>(k, t)\<in>set t0. Q k t"
  proof (rule box_loop_inv [OF loop])
    show "\<forall>(k, t)\<in>set []. Q k t" by simp
  next
    fix p k d
    assume p: "p \<in> set points" and "box_default_trace colors p = Inr (k, d)"
    from box_default_trace_Inr [OF this(2)] p
    show "Q k d" unfolding Q_def box_group_def by blast
  next
    fix p k t
    assume "Q k t"
    then show "Q k (append_level level p t)" by (simp add: Q_def append_level_def)
  qed
  from restyle_loop_result [OF re distinct_supplementary]
  have sub: "set supplementary \<subseteq> fst ` set t0"
    and out: "boxes = map (\<lambda>(k, t). (k, if k \<in> set supplementary then restyle_box k t else t)) t0"
    by simp_all
  have keys: "fst ` set boxes = fst ` set t0"
    unfolding out by (force simp: image_iff case_prod_beta)
  have a: "\<forall>i. 17 \<le> i \<and> i \<le> 22 \<longrightarrow> i \<in> fst ` set boxes"
    using sub unfolding keys by (auto simp: in_supplementary [symmetric])
  have nb: "\<forall>c\<in>set colors. c \<noteq> ''black''"
    using col by (rule generate_cluster_colors_not_black)
  have b: "\<forall>(k, t)\<in>set boxes.
                box_group points k
                \<and> (if 17 \<le> k \<and> k \<le> 22
                   then bt_visible t = LegendOnly \<and> bt_color t = ''black''
                        \<and> bt_outliercolor t = ''black''
                   else bt_visible t = Visible \<and> bt_color t \<in> set colors
                        \<and> bt_color t \<noteq> ''black'' \<and> bt_outliercolor t = bt_color t)"
  proof (clarify)
    fix k t assume "(k, t) \<in> set boxes"
    then obtain t' where t': "(k, t') \<in> set t0"
      and t: "t = (if k \<in> set supplementary then restyle_box k t' else t')"
      unfolding out by auto
    from inv t' have q: "Q k t'" by auto
    show "box_group points k
                \<and> (if 17 \<le> k \<and> k \<le> 22
                   then bt_visible t = LegendOnly \<and> bt_color t = ''black''
                        \<and> bt_outliercolor t = ''black''
                   else bt_visible t = Visible \<and> bt_color t \<in> set colors
                        \<and> bt_color t \<noteq> ''black'' \<and> bt_outliercolor t = bt_color t)"
      using q nb unfolding t in_supplementary Q_def by (simp add: restyle_box_def)
  qed
  from col pts a b show ?thesis by blast
qed

subsection \<open>Ortholog lookup\<close>

text \<open>
  Claim C10. When both a mouse and a human gene identifier are given to
  \<open>find_orthologs\<close>, the mouse identifier decides: the table is queried by the column
  \<open>mmu_gID\<close> with the mouse value, the human argument is not looked at, and the result
  is the one of the call with the mouse identifier alone.
\<close>

theorem find_orthologs_mouse_precedence:
  assumes "mmu_gid \<noteq> []"
  shows "find_orthologs st mmu_gid hsa_gid = find_orthologs st mmu_gid []
       \<and> find_orthologs st mmu_gid hsa_gid =
           (case select_orthologs (orthologs st) mmu_gID mmu_gid of
              None \<Rightarrow> null_pair | Some r \<Rightarrow> r)"
  using assms by (simp add: find_orthologs_def)


theorem find_orthologs_mouse_precedence_witness:
  "''ENSMUSG1'' \<noteq> []
   \<and> find_orthologs demo_store ''ENSMUSG1'' ''ENSG2'' = find_orthologs demo_store ''ENSMUSG1'' []
   \<and> find_orthologs demo_store ''ENSMUSG1'' ''ENSG2''
       = \<lparr>mmu_gID = Some ''ENSMUSG1'', hsa_gID = Some ''ENSG1''\<rparr>"
proof -
  have h: "''ENSMUSG1'' \<noteq> []" by simp
  have e: "(case select_orthologs (orthologs demo_store) mmu_gID ''ENSMUSG1'' of
              None \<Rightarrow> null_pair | Some r \<Rightarrow> r)
           = \<lparr>mmu_gID = Some ''ENSMUSG1'', hsa_gID = Some ''ENSG1''\<rparr>"
    by code_simp
  note t = find_orthologs_mouse_precedence [OF h, of demo_store "''ENSG2''"]
  have a: "find_orthologs demo_store ''ENSMUSG1'' ''ENSG2''
           = find_orthologs demo_store ''ENSMUSG1'' []"
    by (rule conjunct1 [OF t])
  have b: "find_orthologs demo_store ''ENSMUSG1'' ''ENSG2''
           = \<lparr>mmu_gID = Some ''ENSMUSG1'', hsa_gID = Some ''ENSG1''\<rparr>"
    by (rule trans [OF conjunct2 [OF t] e])
  show ?thesis by (intro conjI h a b)
qed

subsection \<open>Gene identifier lookup\<close>

text \<open>
  Claim C7. \<open>gene_id_to_name\<close> is claimed to return a record or a sentinel and never
  to raise for missing data. For an absent species it returns the empty list, but for
  a query that matches no gene identifier of an existing species \<open>fetchone\<close> gives
  \<open>None\<close> and \<open>dict(None)\<close> raises \<open>TypeError\<close>; \<open>find_orthologs\<close> tests the same
  result before it converts it. The theorem evaluates the three cases.
\<close>

theorem gene_id_to_name_no_match_raises:
  "gene_id_to_name demo_store ''mmu'' ''ENSMUSG9'' = Inl TypeError
   \<and> gene_id_to_name demo_store ''rno'' ''ENSMUSG1'' = Inr EmptyList
   \<and> gene_id_to_name demo_store ''mmu'' ''ENSMUSG2''
       = Inr (GeneDict \<lparr>geneID = ''ENSMUSG2'', geneName = ''Gad2''\<rparr>)"
  by code_simp

subsection \<open>Percentile clipping of the gene scatter plot\<close>

text \<open>
  Claim C4, as stated: for the values 1, 2, 3, 4, 100 and the percentiles 0 and 0.8
  the bounds are 1 and about 3.2, and 100 is mapped to 3.2. The upper bound is read
  at position \<open>(5 - 1) * 0.8 = 3.2\<close> of the sorted values, between 4 and 100, so it is
  \<open>4 + 0.2 * 96 = 23.2\<close>: the position was taken for the value.
\<close>

theorem clip_scenario_counterexample:
  "quantile [Some 1, Some 2, Some 3, Some 4, Some 100] (4 / 5) = Inr (Some (116 / 5))
   \<and> \<not> \<bar>(116 / 5 :: rat) - 16 / 5\<bar> < 1
   \<and> set_color_by_percentile (Some 100) (Some 1) (Some (116 / 5)) \<noteq> Level (Some (16 / 5))"
  by code_simp

text \<open>
  Claim C4, amended: on the five cells of the small data directory, whose normalized
  values are 1, 2, 3, 4 and 100, \<open>get_mch_scatter\<close> with the percentiles 0 and 0.8
  computes the lower bound 1 and an upper bound of about 23.2 (4 plus 0.2 times 96),
  leaves 1, 2, 3 and 4 as they are and maps 100 to the upper bound. The arithmetic of
  the model is exact and gives 23.2; the second part holds for every upper bound
  within \<open>10\<^sup>-\<^sup>1\<^sup>2\<close> of it, hence also for the double that the program computes.
\<close>

theorem clip_scenario:
  "(\<exists>h. map_sum id (\<lambda>r. (ms_start r, ms_end r, ms_color r))
           (get_mch_scatter demo_store ''mmu'' ''ENSMUSG1'' ''normalized'' 0 (4 / 5))
         = Inr (Some 1, Some h,
                [Level (Some 1), Level (Some 2), Level (Some 3), Level (Some 4),
                 Level (Some h)])
       \<and> \<bar>h - 116 / 5\<bar> \<le> 1 / 10 ^ 12)
   \<and> (\<forall>h. \<bar>h - 116 / 5\<bar> \<le> 1 / 10 ^ 12 \<longrightarrow>
          map (\<lambda>x. set_color_by_percentile x (Some 1) (Some h))
            [Some 1, Some 2, Some 3, Some 4, Some 100]
          = [Level (Some 1), Level (Some 2), Level (Some 3), Level (Some 4),
             Level (Some h)])"
proof (intro conjI allI impI)
  have e: "map_sum id (\<lambda>r. (ms_start r, ms_end r, ms_color r))
           (get_mch_scatter demo_store ''mmu'' ''ENSMUSG1'' ''normalized'' 0 (4 / 5))
         = Inr (Some 1, Some (116 / 5),
                [Level (Some 1), Level (Some 2), Level (Some 3), Level (Some 4),
                 Level (Some (116 / 5))])"
    by code_simp
  show "\<exists>h. map_sum id (\<lambda>r. (ms_start r, ms_end r, ms_color r))
           (get_mch_scatter demo_store ''mmu'' ''ENSMUSG1'' ''normalized'' 0 (4 / 5))
         = Inr (Some 1, Some h,
                [Level (Some 1), Level (Some 2), Level (Some 3), Level (Some 4),
                 Level (Some h)])
       \<and> \<bar>h - 116 / 5\<bar> \<le> 1 / 10 ^ 12"
    by (rule exI [of _ "116 / 5"]) (simp add: e)
next
  fix h :: rat
  assume "\<bar>h - 116 / 5\<bar> \<le> 1 / 10 ^ 12"
  then have "\<bar>h - 116 / 5\<bar> \<le> 1" by simp
  then have b: "4 < h" "h < 100" by (simp_all add: abs_le_iff)
  show "map (\<lambda>x. set_color_by_percentile x (Some 1) (Some h))
            [Some 1, Some 2, Some 3, Some 4, Some 100]
          = [Level (Some 1), Level (Some 2), Level (Some 3), Level (Some 4),
             Level (Some h)]"
    using b by (simp add: set_color_by_percentile_def nan_less_def)
qed

text \<open>The witness takes the double nearest to the exact result of the program's own
  floating-point steps, \<open>6530219459687224 / 2\<^sup>4\<^sup>8\<close>, which prints as
  23.200000000000017.\<close>

theorem clip_scenario_witness:
  "\<bar>(6530219459687224 / 281474976710656 :: rat) - 116 / 5\<bar> \<le> 1 / 10 ^ 12
   \<and> map (\<lambda>x. set_color_by_percentile x (Some 1)
                 (Some (6530219459687224 / 281474976710656)))
        [Some 1, Some 2, Some 3, Some 4, Some 100]
      = [Level (Some 1), Level (Some 2), Level (Some 3), Level (Some 4),
         Level (Some (6530219459687224 / 281474976710656))]"
proof -
  have h: "\<bar>(6530219459687224 / 281474976710656 :: rat) - 116 / 5\<bar> \<le> 1 / 10 ^ 12"
    by simp
  from clip_scenario have
    "\<forall>h. \<bar>h - 116 / 5\<bar> \<le> 1 / 10 ^ 12 \<longrightarrow>
          map (\<lambda>x. set_color_by_percentile x (Some 1) (Some h))
            [Some 1, Some 2, Some 3, Some 4, Some 100]
          = [Level (Some 1), Level (Some 2), Level (Some 3), Level (Some 4),
             Level (Some h)]"
    by (rule conjunct2)
  with h show ?thesis by blast
qed

text \<open>
  Claim C6. When the two bounds coincide the colour bar is claimed to degenerate to a
  single colour without a division by zero. The step \<open>(end - start) / 4\<close> is then 0
  and \<open>arange\<close> divides by it; when every value is NaN both bounds and the step are
  NaN and \<open>arange\<close> cannot compute a length. Neither error is caught, so the plot
  fails in both cases.
\<close>

theorem colorbar_collapse_raises:
  "get_mch_scatter demo_store ''mmu'' ''ENSMUSG1'' ''normalized'' (1 / 2) (1 / 2)
     = Inl ZeroDivisionError
   \<and> get_mch_scatter demo_store ''mmu'' ''ENSMUSG2'' ''normalized'' 0 1 = Inl ValueError"
  by code_simp

subsection \<open>The outlier filter of the join\<close>

text \<open>
  Claim C9. Without outliers, every record that \<open>get_gene_mch\<close> returns has a
  normalized value, and that value is strictly below the 99th percentile of the
  normalized values of the full join: the comparison is false for NaN and for a value
  equal to the percentile. The records are among those of the call with outliers,
  and whenever that call returns a record the call without outliers returns fewer,
  so one record per embedding row is kept only with outliers.
\<close>

theorem outlier_free_join_values:
  assumes "get_gene_mch st species g False = Inr rs"
  shows "\<exists>rs'. get_gene_mch st species g True = Inr rs'
           \<and> (\<forall>r\<in>set rs. \<exists>v q. normalized r = Some v \<and> three_std_dev rs' = Some q \<and> v < q)
           \<and> mset rs \<subseteq># mset rs'
           \<and> (rs' \<noteq> [] \<longrightarrow> length rs < length rs')"
proof -
  from get_gene_mch_cases [OF assms]
  show ?thesis
  proof
    assume e: "\<forall>b. get_gene_mch st species g b = Inr []"
    then have "rs = []" using assms by simp
    with e show ?thesis by simp
  next
    assume "\<exists>f fs cluster. species_exists st species \<and> glob_mch st species g = f # fs
             \<and> samp_is_text (snd f) \<and> get_cluster_points st species = Some cluster
             \<and> cluster \<noteq> []
             \<and> (\<forall>b. get_gene_mch st species g b
                       = Inr (join_frames (sort_ties st) cluster (snd f) b))"
    then obtain f :: "string \<times> mch_row list" and cluster
      where j: "\<forall>b. get_gene_mch st species g b
                    = Inr (join_frames (sort_ties st) cluster (snd f) b)"
      by (elim exE conjE)
    have rs: "rs = join_frames (sort_ties st) cluster (snd f) False" using j assms by simp
    show ?thesis
      using join_frames_outliers [where tape = "sort_ties st" and cluster = cluster
                                    and mch = "snd f"] j
      unfolding rs by blast
  qed
qed

theorem outlier_free_join_values_witness:
  "get_gene_mch demo_store ''mmu'' ''ENSMUSG1'' False
     = Inr (join_frames [] demo_points demo_rows False)
   \<and> map j_samp (join_frames [] demo_points demo_rows False) = [''s1'', ''s2'', ''s3'', ''s4'']
   \<and> (\<exists>rs'. get_gene_mch demo_store ''mmu'' ''ENSMUSG1'' True = Inr rs'
        \<and> (\<forall>r\<in>set (join_frames [] demo_points demo_rows False).
              \<exists>v q. normalized r = Some v \<and> three_std_dev rs' = Some q \<and> v < q)
        \<and> mset (join_frames [] demo_points demo_rows False) \<subseteq># mset rs'
        \<and> (rs' \<noteq> [] \<longrightarrow> length (join_frames [] demo_points demo_rows False) < length rs'))"
proof -
  have e: "get_gene_mch demo_store ''mmu'' ''ENSMUSG1'' False
           = Inr (join_frames [] demo_points demo_rows False)"
    by code_simp
  have s: "map j_samp (join_frames [] demo_points demo_rows False) = [''s1'', ''s2'', ''s3'', ''s4'']"
    by code_simp
  show ?thesis
    by (intro conjI e s outlier_free_join_values [OF e])
qed

text \<open>
  Claim C3, as stated: filtering twice without outliers gives the same as filtering
  once. On the five cells with the normalized values 1, 2, 3, 4, 100 the first pass
  keeps the four cells below \<open>96.16\<close>, and a second pass over these four keeps only
  the three below \<open>3.97\<close>; the same happens when the measurement file is replaced by
  the rows that survived and \<open>get_gene_mch\<close> is run again.
\<close>

theorem outlier_filter_idempotent_counterexample:
  "map j_samp (remove_outliers (merge_left demo_points demo_rows))
     = [''s1'', ''s2'', ''s3'', ''s4'']
   \<and> map j_samp (remove_outliers (remove_outliers (merge_left demo_points demo_rows)))
     = [''s1'', ''s2'', ''s3'']
   \<and> map_sum id (map j_samp) (get_gene_mch demo_store ''mmu'' ''ENSMUSG1'' False)
     = Inr [''s1'', ''s2'', ''s3'', ''s4'']
   \<and> map_sum id (map j_samp) (get_gene_mch demo_store_filtered ''mmu'' ''ENSMUSG1'' False)
     = Inr [''s1'', ''s2'', ''s3'']"
  by code_simp

text \<open>
  Claim C3, amended: the filter is not idempotent. Every pass computes the percentile
  of the rows it is given and keeps the rows strictly below it, so it returns some of
  its rows, strictly fewer whenever it is given any, and a second pass returns the
  result of the first only when the first left no row.
\<close>

theorem outlier_filter_reapplied:
  "mset (remove_outliers rows) \<subseteq># mset rows
   \<and> (rows \<noteq> [] \<longrightarrow> length (remove_outliers rows) < length rows)
   \<and> (remove_outliers (remove_outliers rows) = remove_outliers rows
        \<longleftrightarrow> remove_outliers rows = [])"
proof (intro conjI impI)
  show "mset (remove_outliers rows) \<subseteq># mset rows" by (rule remove_outliers_subseq)
  show "length (remove_outliers rows) < length rows" if "rows \<noteq> []"
    using that by (rule remove_outliers_shorter)
  show "remove_outliers (remove_outliers rows) = remove_outliers rows
        \<longleftrightarrow> remove_outliers rows = []"
  proof
    assume eq: "remove_outliers (remove_outliers rows) = remove_outliers rows"
    show "remove_outliers rows = []"
    proof (rule ccontr)
      assume "remove_outliers rows \<noteq> []"
      then have "length (remove_outliers (remove_outliers rows)) < length (remove_outliers rows)"
        by (rule remove_outliers_shorter)
      with eq show False by simp
    qed
  next
    assume "remove_outliers rows = []"
    then show "remove_outliers (remove_outliers rows) = remove_outliers rows"
      by (simp add: remove_outliers_def)
  qed
qed

theorem outlier_filter_reapplied_witness:
  "merge_left demo_points demo_rows \<noteq> []
   \<and> length (remove_outliers (merge_left demo_points demo_rows)) = 4
   \<and> length (remove_outliers (merge_left demo_points demo_rows))
       < length (merge_left demo_points demo_rows)
   \<and> remove_outliers (remove_outliers (merge_left demo_points demo_rows))
       \<noteq> remove_outliers (merge_left demo_points demo_rows)"
proof -
  have ne: "merge_left demo_points demo_rows \<noteq> []" by code_simp
  have l4: "length (remove_outliers (merge_left demo_points demo_rows)) = 4" by code_simp
  then have ne': "remove_outliers (merge_left demo_points demo_rows) \<noteq> []" by auto
  note t = outlier_filter_reapplied [of "merge_left demo_points demo_rows"]
  from t ne have a: "length (remove_outliers (merge_left demo_points demo_rows))
       < length (merge_left demo_points demo_rows)" by blast
  from t ne' have b: "remove_outliers (remove_outliers (merge_left demo_points demo_rows))
       \<noteq> remove_outliers (merge_left demo_points demo_rows)" by blast
  show ?thesis by (intro conjI ne l4 a b)
qed

subsection \<open>The left join\<close>

text \<open>
  Claim C1. For a species whose directory exists and a gene with a measurement file,
  \<open>get_gene_mch\<close> with outliers is claimed to return one record per embedding row. When
  the embedding table cannot be opened \<open>get_cluster_points\<close> returns \<open>None\<close>, as its
  documentation says, and when the table has no row it returns the empty list.
  \<open>get_cluster_plot\<close> tests this result, \<open>get_gene_mch\<close> does not: it builds a frame
  without columns and the selection of the columns raises \<open>KeyError\<close>, where no
  embedding row asks for no record. The merge also raises when pandas reads the
  sample identifiers of the measurement file as numbers. Lemma
  \<open>left_join_one_record_per_row\<close> shows that the claim holds when the table has a row
  and the measurement file has text identifiers, each at most once.
\<close>

theorem join_raises_without_embedding:
  "species_exists no_embedding_store ''mmu''
   \<and> gene_exists no_embedding_store ''mmu'' ''ENSMUSG1''
   \<and> get_cluster_points no_embedding_store ''mmu'' = None
   \<and> get_gene_mch no_embedding_store ''mmu'' ''ENSMUSG1'' True = Inl KeyError
   \<and> get_cluster_plot no_embedding_store [] ''mmu'' ''cluster_name'' = Inl FailToGraphException
   \<and> species_exists no_embedding_store ''hsa''
   \<and> gene_exists no_embedding_store ''hsa'' ''ENSG1''
   \<and> get_cluster_points no_embedding_store ''hsa'' = Some []
   \<and> get_gene_mch no_embedding_store ''hsa'' ''ENSG1'' True = Inl KeyError
   \<and> get_gene_mch numeric_id_store ''mmu'' ''ENSMUSG1'' True = Inl ValueError"
  by code_simp

text \<open>In particular the call does not return the empty list that no embedding row
  asks for.\<close>

theorem join_raises_without_embedding_witness:
  "get_gene_mch no_embedding_store ''mmu'' ''ENSMUSG1'' True \<noteq> Inr []
   \<and> get_gene_mch no_embedding_store ''hsa'' ''ENSG1'' True \<noteq> Inr []"
  using join_raises_without_embedding by simp

subsection \<open>Plot builders on empty input\<close>

text \<open>
  Claim C2. Each plot builder raises \<open>FailToGraphException\<close> when the records it is
  built from are empty: the cluster scatter plot when \<open>get_cluster_points\<close> gives
  \<open>None\<close> or no row, the gene scatter plot and the box plot of one species when
  \<open>get_gene_mch\<close> returns no record, and the box plot of two species when both joins
  return and one of them has no record.
\<close>

theorem empty_input_fails_to_graph:
  "((get_cluster_points st species = None \<or> get_cluster_points st species = Some [])
      \<longrightarrow> get_cluster_plot st tape species grouping = Inl FailToGraphException)
   \<and> (get_gene_mch st species g True = Inr []
      \<longrightarrow> get_mch_scatter st species g level ptile_start ptile_end = Inl FailToGraphException)
   \<and> (get_gene_mch st species g outliers = Inr []
      \<longrightarrow> get_mch_box st tape species g level outliers = Inl FailToGraphException)
   \<and> (get_gene_mch st ''mmu'' gene_mmu outliers = Inr points_mmu
        \<and> get_gene_mch st ''hsa'' gene_hsa outliers = Inr points_hsa
        \<and> (points_mmu = [] \<or> points_hsa = [])
      \<longrightarrow> get_mch_box_two_species st gene_mmu gene_hsa level outliers
            = Inl FailToGraphException)"
proof (intro conjI impI)
  assume "get_cluster_points st species = None \<or> get_cluster_points st species = Some []"
  then show "get_cluster_plot st tape species grouping = Inl FailToGraphException"
    by (auto simp: get_cluster_plot_def)
next
  assume "get_gene_mch st species g True = Inr []"
  then show "get_mch_scatter st species g level ptile_start ptile_end = Inl FailToGraphException"
    by (simp add: get_mch_scatter_def)
next
  assume "get_gene_mch st species g outliers = Inr []"
  then show "get_mch_box st tape species g level outliers = Inl FailToGraphException"
    by (simp add: get_mch_box_def)
next
  assume "get_gene_mch st ''mmu'' gene_mmu outliers = Inr points_mmu
        \<and> get_gene_mch st ''hsa'' gene_hsa outliers = Inr points_hsa
        \<and> (points_mmu = [] \<or> points_hsa = [])"
  then show "get_mch_box_two_species st gene_mmu gene_hsa level outliers
            = Inl FailToGraphException"
    by (auto simp: get_mch_box_two_species_def)
qed

theorem empty_input_fails_to_graph_witness:
  "get_cluster_points demo_store ''rno'' = None
   \<and> get_cluster_plot demo_store [] ''rno'' ''cluster_name'' = Inl FailToGraphException
   \<and> get_gene_mch demo_store ''mmu'' ''ENSMUSG7'' True = Inr []
   \<and> get_mch_scatter demo_store ''mmu'' ''ENSMUSG7'' ''normalized'' 0 1
       = Inl FailToGraphException
   \<and> get_mch_box demo_store [] ''mmu'' ''ENSMUSG7'' ''normalized'' True
       = Inl FailToGraphException
   \<and> get_gene_mch demo_store ''hsa'' ''ENSG1'' True
       = Inr (join_frames [] (the (tsne_file demo_store ''hsa''))
              (snd (hd (mch_files demo_store ''hsa''))) True)
   \<and> get_mch_box_two_species demo_store ''ENSMUSG7'' ''ENSG1'' ''normalized'' True
       = Inl FailToGraphException"
proof -
  have a: "get_cluster_points demo_store ''rno'' = None" by code_simp
  have b: "get_gene_mch demo_store ''mmu'' ''ENSMUSG7'' True = Inr []" by code_simp
  have c: "get_gene_mch demo_store ''hsa'' ''ENSG1'' True
       = Inr (join_frames [] (the (tsne_file demo_store ''hsa''))
              (snd (hd (mch_files demo_store ''hsa''))) True)"
    by code_simp
  note t = empty_input_fails_to_graph [of demo_store _ "[]" _ _ _ _ _ True]
  have p: "get_cluster_plot demo_store [] ''rno'' ''cluster_name'' = Inl FailToGraphException"
    using t [of "''rno''" "''cluster_name''"] a by blast
  have q: "get_mch_scatter demo_store ''mmu'' ''ENSMUSG7'' ''normalized'' 0 1
       = Inl FailToGraphException"
    using empty_input_fails_to_graph [of demo_store "''mmu''" _ _ "''ENSMUSG7''" "''normalized''" 0 1] b
    by blast
  have r: "get_mch_box demo_store [] ''mmu'' ''ENSMUSG7'' ''normalized'' True
       = Inl FailToGraphException"
    using empty_input_fails_to_graph [of demo_store "''mmu''" "[]" _ "''ENSMUSG7''" "''normalized''" _ _ True] b
    by blast
  have s: "get_mch_box_two_species demo_store ''ENSMUSG7'' ''ENSG1'' ''normalized'' True
       = Inl FailToGraphException"
    using empty_input_fails_to_graph [of demo_store _ _ _ _ "''normalized''" _ _ True "''ENSMUSG7''" "[]" "''ENSG1''"] b c
    by blast
  show ?thesis by (intro conjI a p b q r c s)
qed

subsection \<open>Cluster colours\<close>

text \<open>
  Claim C5. \<open>generate_cluster_colors(n)\<close> is claimed to return \<open>n\<close> distinct colours with
  hues evenly spaced around the hue circle. \<open>linspace(0, 360, n)\<close> includes both ends,
  so for \<open>n = 16\<close>, the number used for every mouse plot, the sixteen strings are
  distinct as text but contain both hue 0 and hue 360, which are the same point of the
  hue circle: the list holds fifteen colours, whatever the random order.
\<close>

theorem cluster_colors_endpoints_coincide:
  "\<exists>cs. generate_cluster_colors tape 16 = Inr cs \<and> length cs = 16 \<and> distinct cs
        \<and> ''hsl(0,50%,50%)'' \<in> set cs \<and> ''hsl(360,50%,50%)'' \<in> set cs"
proof -
  define c where "c = map hsl [0, 24, 48, 72, 96, 120, 144, 168, 192, 216, 240, 264, 288, 312, 336, 360]"
  have g: "generate_cluster_colors tape 16 = Inr (py_sample tape c)"
    by (simp add: generate_cluster_colors_def hsl_16 c_def)
  have l: "length (py_sample tape c) = 16" by (simp add: py_sample_length c_def)
  have d: "distinct c" unfolding c_def hsl_16_strings by simp
  have d': "distinct (py_sample tape c)"
    using d py_sample_mset [of tape c] by (metis mset_eq_imp_distinct_iff)
  have m: "''hsl(0,50%,50%)'' \<in> set c" "''hsl(360,50%,50%)'' \<in> set c"
    unfolding c_def hsl_16_strings by simp_all
  then have m': "''hsl(0,50%,50%)'' \<in> set (py_sample tape c)"
    "''hsl(360,50%,50%)'' \<in> set (py_sample tape c)"
    by (simp_all add: py_sample_set)
  from g l d' m' show ?thesis by blast
qed

subsection \<open>The supplementary groups of the mouse\<close>

text \<open>
  Claim C8. For the species \<open>mmu\<close> the cluster plot and the box plot of one species
  draw their colours from the sixteen of \<open>generate_cluster_colors(16)\<close>, whatever the
  clusters of the data are, and the cluster plot counts sixteen groups per biosample.
  On every input on which a builder succeeds, the groups 17 to 22 are all there
  (\<open>traces[i]\<close> raises \<open>KeyError\<close> otherwise), each of them is shown in the legend only
  and in black, enlarged to size 15 in the cluster plot, and every other group is
  visible in one of the sixteen colours, none of which is black, at size 7 in the
  cluster plot.
\<close>

theorem mmu_supplementary_groups:
  "(get_cluster_plot st tape ''mmu'' grouping = Inr traces \<longrightarrow>
      (\<exists>colors points. generate_cluster_colors tape 16 = Inr colors
          \<and> get_cluster_points st ''mmu'' = Some points
          \<and> (\<forall>i. 17 \<le> i \<and> i \<le> 22 \<longrightarrow> i \<in> fst ` set traces)
          \<and> (\<forall>(k, t)\<in>set traces.
                cluster_group points k
                \<and> (if 17 \<le> k \<and> k \<le> 22
                   then ct_visible t = LegendOnly \<and> ct_color t = ''black'' \<and> ct_size t = 15
                   else ct_visible t = Visible \<and> ct_color t \<in> set colors
                        \<and> ct_color t \<noteq> ''black'' \<and> ct_size t = 7))))
   \<and> (get_mch_box st tape ''mmu'' g level outliers = Inr (boxes, title) \<longrightarrow>
      (\<exists>colors points. generate_cluster_colors tape 16 = Inr colors
          \<and> get_gene_mch st ''mmu'' g outliers = Inr points
          \<and> (\<forall>i. 17 \<le> i \<and> i \<le> 22 \<longrightarrow> i \<in> fst ` set boxes)
          \<and> (\<forall>(k, t)\<in>set boxes.
                box_group points k
                \<and> (if 17 \<le> k \<and> k \<le> 22
                   then bt_visible t = LegendOnly \<and> bt_color t = ''black''
                        \<and> bt_outliercolor t = ''black''
                   else bt_visible t = Visible \<and> bt_color t \<in> set colors
                        \<and> bt_color t \<noteq> ''black'' \<and> bt_outliercolor t = bt_color t))))"
proof (intro conjI impI)
  assume "get_cluster_plot st tape ''mmu'' grouping = Inr traces"
  then show "\<exists>colors points. generate_cluster_colors tape 16 = Inr colors
          \<and> get_cluster_points st ''mmu'' = Some points
          \<and> (\<forall>i. 17 \<le> i \<and> i \<le> 22 \<longrightarrow> i \<in> fst ` set traces)
          \<and> (\<forall>(k, t)\<in>set traces.
                cluster_group points k
                \<and> (if 17 \<le> k \<and> k \<le> 22
                   then ct_visible t = LegendOnly \<and> ct_color t = ''black'' \<and> ct_size t = 15
                   else ct_visible t = Visible \<and> ct_color t \<in> set colors
                        \<and> ct_color t \<noteq> ''black'' \<and> ct_size t = 7))"
    by (rule get_cluster_plot_mmu)
next
  assume "get_mch_box st tape ''mmu'' g level outliers = Inr (boxes, title)"
  then show "\<exists>colors points. generate_cluster_colors tape 16 = Inr colors
          \<and> get_gene_mch st ''mmu'' g outliers = Inr points
          \<and> (\<forall>i. 17 \<le> i \<and> i \<le> 22 \<longrightarrow> i \<in> fst ` set boxes)
          \<and> (\<forall>(k, t)\<in>set boxes.
                box_group points k
                \<and> (if 17 \<le> k \<and> k \<le> 22
                   then bt_visible t = LegendOnly \<and> bt_color t = ''black''
                        \<and> bt_outliercolor t = ''black''
                   else bt_visible t = Visible \<and> bt_color t \<in> set colors
                        \<and> bt_color t \<noteq> ''black'' \<and> bt_outliercolor t = bt_color t))"
    by (rule get_mch_box_mmu)
qed

theorem mmu_supplementary_groups_witness:
  "(\<exists>traces. get_cluster_plot cluster_demo_store [] ''mmu'' ''cluster_name'' = Inr traces
      \<and> map (\<lambda>(k, t). (k, ct_visible t, ct_size t)) traces
          = [(1, Visible, 7), (17, LegendOnly, 15), (18, LegendOnly, 15), (19, LegendOnly, 15),
             (20, LegendOnly, 15), (21, LegendOnly, 15), (22, LegendOnly, 15)]
      \<and> (\<exists>colors. generate_cluster_colors [] 16 = Inr colors
            \<and> (\<forall>(k, t)\<in>set traces.
                  if 17 \<le> k \<and> k \<le> 22 then ct_color t = ''black''
                  else ct_color t \<in> set colors \<and> ct_color t \<noteq> ''black'')))
   \<and> (\<exists>boxes title.
        get_mch_box box_demo_store [] ''mmu'' ''ENSMUSG1'' ''normalized'' True = Inr (boxes, title)
      \<and> map (\<lambda>(k, t). (k, bt_visible t)) boxes
          = [(1, Visible), (17, LegendOnly), (18, LegendOnly), (19, LegendOnly),
             (20, LegendOnly), (21, LegendOnly), (22, LegendOnly)]
      \<and> (\<exists>colors. generate_cluster_colors [] 16 = Inr colors
            \<and> (\<forall>(k, t)\<in>set boxes.
                  if 17 \<le> k \<and> k \<le> 22 then bt_color t = ''black''
                  else bt_color t \<in> set colors \<and> bt_color t \<noteq> ''black'')))"
proof (intro conjI)
  have e: "map_sum id (map (\<lambda>(k, t). (k, ct_visible t, ct_size t)))
             (get_cluster_plot cluster_demo_store [] ''mmu'' ''cluster_name'')
           = Inr [(1, Visible, 7), (17, LegendOnly, 15), (18, LegendOnly, 15),
                  (19, LegendOnly, 15), (20, LegendOnly, 15), (21, LegendOnly, 15),
                  (22, LegendOnly, 15)]"
    by code_simp
  then obtain traces
    where t: "get_cluster_plot cluster_demo_store [] ''mmu'' ''cluster_name'' = Inr traces"
      and k: "map (\<lambda>(k, t). (k, ct_visible t, ct_size t)) traces
          = [(1, Visible, 7), (17, LegendOnly, 15), (18, LegendOnly, 15), (19, LegendOnly, 15),
             (20, LegendOnly, 15), (21, LegendOnly, 15), (22, LegendOnly, 15)]"
    by (cases "get_cluster_plot cluster_demo_store [] ''mmu'' ''cluster_name''") auto
  note th = mmu_supplementary_groups
               [of cluster_demo_store "[]" "''cluster_name''" traces "[]" "[]" True "[]" "[]"]
  from mp [OF conjunct1 [OF th] t]
  obtain colors points where c: "generate_cluster_colors [] 16 = Inr colors"
    and p: "\<forall>(k, t)\<in>set traces.
                cluster_group points k
                \<and> (if 17 \<le> k \<and> k \<le> 22
                   then ct_visible t = LegendOnly \<and> ct_color t = ''black'' \<and> ct_size t = 15
                   else ct_visible t = Visible \<and> ct_color t \<in> set colors
                        \<and> ct_color t \<noteq> ''black'' \<and> ct_size t = 7)"
    by (elim exE conjE)
  from p have q: "\<forall>(k, t)\<in>set traces.
                  if 17 \<le> k \<and> k \<le> 22 then ct_color t = ''black''
                  else ct_color t \<in> set colors \<and> ct_color t \<noteq> ''black''"
    by (auto split: if_splits)
  show "\<exists>traces. get_cluster_plot cluster_demo_store [] ''mmu'' ''cluster_name'' = Inr traces
      \<and> map (\<lambda>(k, t). (k, ct_visible t, ct_size t)) traces
          = [(1, Visible, 7), (17, LegendOnly, 15), (18, LegendOnly, 15), (19, LegendOnly, 15),
             (20, LegendOnly, 15), (21, LegendOnly, 15), (22, LegendOnly, 15)]
      \<and> (\<exists>colors. generate_cluster_colors [] 16 = Inr colors
            \<and> (\<forall>(k, t)\<in>set traces.
                  if 17 \<le> k \<and> k \<le> 22 then ct_color t = ''black''
                  else ct_color t \<in> set colors \<and> ct_color t \<noteq> ''black''))"
    by (rule exI [of _ traces], intro conjI t k, rule exI [of _ colors], intro conjI c q)
next
  have e: "map_sum id (\<lambda>(boxes, title). map (\<lambda>(k, t). (k, bt_visible t)) boxes)
             (get_mch_box box_demo_store [] ''mmu'' ''ENSMUSG1'' ''normalized'' True)
           = Inr [(1, Visible), (17, LegendOnly), (18, LegendOnly), (19, LegendOnly),
                  (20, LegendOnly), (21, LegendOnly), (22, LegendOnly)]"
    by code_simp
  then obtain boxes title
    where t: "get_mch_box box_demo_store [] ''mmu'' ''ENSMUSG1'' ''normalized'' True
              = Inr (boxes, title)"
      and k: "map (\<lambda>(k, t). (k, bt_visible t)) boxes
          = [(1, Visible), (17, LegendOnly), (18, LegendOnly), (19, LegendOnly),
             (20, LegendOnly), (21, LegendOnly), (22, LegendOnly)]"
    by (cases "get_mch_box box_demo_store [] ''mmu'' ''ENSMUSG1'' ''normalized'' True") auto
  note th = mmu_supplementary_groups
               [of box_demo_store "[]" "[]" "[]" "''ENSMUSG1''" "''normalized''" True boxes title]
  from mp [OF conjunct2 [OF th] t]
  obtain colors points where c: "generate_cluster_colors [] 16 = Inr colors"
    and p: "\<forall>(k, t)\<in>set boxes.
                box_group points k
                \<and> (if 17 \<le> k \<and> k \<le> 22
                   then bt_visible t = LegendOnly \<and> bt_color t = ''black''
                        \<and> bt_outliercolor t = ''black''
                   else bt_visible t = Visible \<and> bt_color t \<in> set colors
                        \<and> bt_color t \<noteq> ''black'' \<and> bt_outliercolor t = bt_color t)"
    by (elim exE conjE)
  from p have q: "\<forall>(k, t)\<in>set boxes.
                  if 17 \<le> k \<and> k \<le> 22 then bt_color t = ''black''
                  else bt_color t \<in> set colors \<and> bt_color t \<noteq> ''black''"
    by (auto split: if_splits)
  show "\<exists>boxes title.
        get_mch_box box_demo_store [] ''mmu'' ''ENSMUSG1'' ''normalized'' True = Inr (boxes, title)
      \<and> map (\<lambda>(k, t). (k, bt_visible t)) boxes
          = [(1, Visible), (17, LegendOnly), (18, LegendOnly), (19, LegendOnly),
             (20, LegendOnly), (21, LegendOnly), (22, LegendOnly)]
      \<and> (\<exists>colors. generate_cluster_colors [] 16 = Inr colors
            \<and> (\<forall>(k, t)\<in>set boxes.
                  if 17 \<le> k \<and> k \<le> 22 then bt_color t = ''black''
                  else bt_color t \<in> set colors \<and> bt_color t \<noteq> ''black''))"
    by (rule exI [of _ boxes], rule exI [of _ title], intro conjI t k,
        rule exI [of _ colors], intro conjI c q)
qed

end
